theory Spec2Isabelle
  imports Main "HOL-Library.AList"
begin

section \<open>Data model\<close>

text \<open>
  The synchronisation client of Honos-Sync: \<^verbatim>\<open>SyncManager\<close>, \<^verbatim>\<open>MetadataManager\<close>
  (both in \<^verbatim>\<open>src/SyncManager.ts\<close>) and \<^verbatim>\<open>ConflictHandler\<close>
  (\<^verbatim>\<open>src/unnamed/part_000\<close>).  Record fields carry a short prefix, since several of the
  source's object types share field names (\<^verbatim>\<open>success\<close>, \<^verbatim>\<open>revision\<close>, \<^verbatim>\<open>hash\<close>).
  A JavaScript value that may be \<^verbatim>\<open>undefined\<close> is an \<open>option\<close>; revisions, sizes and
  timestamps are natural numbers.
\<close>

type_synonym path = string

text \<open>Every \<^verbatim>\<open>throw\<close> and every rejected promise is a value \<open>Error msg\<close>.\<close>

datatype exn = Error string

text \<open>
  Modelled from the spec: \<^verbatim>\<open>types.ts\<close> is missing; \<^verbatim>\<open>LocalFileMetadata\<close>,
  \<^verbatim>\<open>RemoteFile\<close> and \<^verbatim>\<open>ConflictInfo\<close> follow the spec's data model (section 3) and the
  fields the source reads and writes.
\<close>

record LocalFileMetadata =
  m_path :: path
  m_hash :: string
  m_size :: nat
  m_revision :: nat
  m_parentRevision :: nat
  m_lastSyncedAt :: nat
  m_deviceId :: "string option"

text \<open>
  The argument of \<^verbatim>\<open>saveMetadata\<close>.  Its type is \<^verbatim>\<open>Partial<LocalFileMetadata>\<close>, but the
  two objects the source passes (in \<^verbatim>\<open>uploadFile\<close> and in \<^verbatim>\<open>downloadFile\<close>) carry all six
  keys, each with a defined value; the patch is the record of those six values.
\<close>

record MetadataPatch =
  p_hash :: string
  p_size :: nat
  p_revision :: nat
  p_parentRevision :: nat
  p_lastSyncedAt :: nat
  p_deviceId :: string

record RemoteFile =
  rf_path :: path
  rf_hash :: string
  rf_revision :: "nat option"
  rf_parentRevision :: "nat option"
  rf_size :: nat

record ConflictInfo =
  currentRevision :: nat
  yourParentRevision :: nat

text \<open>
  Modelled from the spec: \<^verbatim>\<open>NetworkClient.ts\<close> is missing; the shapes of its results
  follow the spec's transport interface (section 6) and the fields \<^verbatim>\<open>SyncManager\<close> and
  \<^verbatim>\<open>ConflictHandler\<close> read.
\<close>

record ListResult =
  l_success :: bool
  l_files :: "RemoteFile list option"
  l_error :: "string option"

record UploadResult =
  u_success :: bool
  u_file :: "RemoteFile option"
  u_error :: "string option"
  u_conflict :: "ConflictInfo option"

record DownloadResult =
  d_success :: bool
  d_file :: "RemoteFile option"
  d_content :: "string option"
  d_isConflict :: bool

record DeleteResult =
  x_success :: bool
  x_conflict :: bool

record MergeRequest =
  filePath :: path
  ourContent :: string
  ancestorRevision :: nat
  theirRevision :: nat

record MergeResult =
  g_success :: bool
  g_hasConflict :: bool
  g_mergedContent :: "string option"

text \<open>
  The transport is a parameter: each call maps the request and the server's state \<open>'n\<close>
  to a result, or to a thrown error, and the next server state.
\<close>

record 'n NetworkClient =
  nc_listFiles :: "'n \<Rightarrow> (exn + ListResult) \<times> 'n"
  nc_uploadFile :: "path \<Rightarrow> string \<Rightarrow> nat \<Rightarrow> string \<Rightarrow> 'n \<Rightarrow> (exn + UploadResult) \<times> 'n"
  nc_downloadFile :: "path \<Rightarrow> nat option \<Rightarrow> 'n \<Rightarrow> (exn + DownloadResult) \<times> 'n"
  nc_deleteFile :: "path \<Rightarrow> nat \<Rightarrow> string \<Rightarrow> 'n \<Rightarrow> (exn + DeleteResult) \<times> 'n"
  nc_attemptAutoMerge :: "MergeRequest \<Rightarrow> 'n \<Rightarrow> (exn + MergeResult) \<times> 'n"

text \<open>
  The rest of the environment: how long an awaited operation takes at a given time
  (\<open>elapse\<close>, so the clock never runs backwards), the modification time the file tree
  stamps on a file written at a given time (\<open>stamp\<close>), whether the adapter's write of
  \<^verbatim>\<open>metadata.json\<close> fails at a given time, and \<^verbatim>\<open>Date.prototype.toISOString\<close>.
\<close>

record 'n env =
  net :: "'n NetworkClient"
  elapse :: "nat \<Rightarrow> nat"
  stamp :: "nat \<Rightarrow> nat"
  writeFails :: "nat \<Rightarrow> bool"
  toISOString :: "nat \<Rightarrow> string"

text \<open>What the user and the console see, and the requests sent, in order.\<close>

datatype notice =
    NotAuthenticated
  | SyncInProgress
  | SyncStarting
  | SyncCompleted nat nat
  | SyncUpToDate
  | SyncFailed string
  | ServerMarkedConflicted path
  | DeleteConflict path
  | ConflictNoInfo path
  | ConflictDetected path
  | AutoMerged path
  | ConflictError path
  | CannotAutoMerge path
  | ConflictBackupSaved path

datatype console =
    SyncFailedLog exn
  | FailedToUpload path "string option"
  | ErrorUploading path exn
  | ErrorDownloading path exn
  | ErrorDeleting path exn
  | ErrorHandlingConflict exn

datatype request =
    ListFiles
  | Upload path string nat string
  | Download path "nat option"
  | Delete path nat string
  | AutoMerge MergeRequest

datatype event = Notice notice | Console console | Net request

text \<open>
  The host's file tree (\<^verbatim>\<open>app.vault\<close>): an ordered table from paths to files and
  folders.  A \<^verbatim>\<open>TFile\<close> is its path; its \<^verbatim>\<open>stat\<close> is read from the table when the
  source reads it.
\<close>

datatype entry = FileEntry string nat | FolderEntry

text \<open>
  \<^verbatim>\<open>MetadataManager.metadata\<close> is a plain JavaScript object.  \<open>metadata\<close> holds the records
  one reaches under their key.  The key \<^verbatim>\<open>__proto__\<close> is special: an assignment to it,
  when the object has no own property of that name, sets the object's prototype instead of
  creating a property.  \<open>protoInstalled\<close> says that the record under \<^verbatim>\<open>__proto__\<close> is the
  object's prototype and not an own property (which only \<^verbatim>\<open>JSON.parse\<close> creates).
\<close>

record 'n state =
  token :: string
  deviceId :: string
  isSyncing :: bool
  metadata :: "path \<rightharpoonup> LocalFileMetadata"
  protoInstalled :: bool
  vault :: "(path \<times> entry) list"
  server :: 'n
  now :: nat
  events :: "event list"

section \<open>Effects\<close>

text \<open>An operation runs on a state and returns a value or a thrown error, and a state.\<close>

type_synonym ('a, 'n) io = "'n state \<Rightarrow> (exn + 'a) \<times> 'n state"

definition returnE :: "'a \<Rightarrow> ('a, 'n) io" where
  "returnE x s = (Inr x, s)"

definition throwE :: "exn \<Rightarrow> ('a, 'n) io" where
  "throwE ex s = (Inl ex, s)"

definition bindE :: "('a, 'n) io \<Rightarrow> ('a \<Rightarrow> ('b, 'n) io) \<Rightarrow> ('b, 'n) io" where
  "bindE m f s = (case m s of (Inl ex, s') \<Rightarrow> (Inl ex, s') | (Inr x, s') \<Rightarrow> f x s')"

definition tick :: "'n env \<Rightarrow> 'n state \<Rightarrow> 'n state" where
  "tick e s = s\<lparr>now := now s + elapse e (now s)\<rparr>"

definition emit :: "event \<Rightarrow> 'n state \<Rightarrow> 'n state" where
  "emit ev s = s\<lparr>events := events s @ [ev]\<rparr>"

definition say :: "event \<Rightarrow> (unit, 'n) io" where
  "say ev s = (Inr (), emit ev s)"

definition getState :: "('n state, 'n) io" where
  "getState s = (Inr s, s)"

definition dateNow :: "(nat, 'n) io" where
  "dateNow s = (Inr (now s), s)"

text \<open>A request is logged, answered by the transport, and takes time.\<close>

definition request ::
  "'n env \<Rightarrow> request \<Rightarrow> ('n \<Rightarrow> (exn + 'a) \<times> 'n) \<Rightarrow> ('a, 'n) io" where
  "request e rq call s =
     (case call (server s) of (r, n') \<Rightarrow> (r, tick e (emit (Net rq) (s\<lparr>server := n'\<rparr>))))"

definition net_listFiles :: "'n env \<Rightarrow> (ListResult, 'n) io" where
  "net_listFiles e = request e ListFiles (nc_listFiles (net e))"

definition net_uploadFile :: "'n env \<Rightarrow> path \<Rightarrow> string \<Rightarrow> nat \<Rightarrow> string \<Rightarrow> (UploadResult, 'n) io" where
  "net_uploadFile e p c parent dev =
     request e (Upload p c parent dev) (nc_uploadFile (net e) p c parent dev)"

definition net_downloadFile :: "'n env \<Rightarrow> path \<Rightarrow> nat option \<Rightarrow> (DownloadResult, 'n) io" where
  "net_downloadFile e p revision =
     request e (Download p revision) (nc_downloadFile (net e) p revision)"

definition net_deleteFile :: "'n env \<Rightarrow> path \<Rightarrow> nat \<Rightarrow> string \<Rightarrow> (DeleteResult, 'n) io" where
  "net_deleteFile e p parent dev =
     request e (Delete p parent dev) (nc_deleteFile (net e) p parent dev)"

definition net_attemptAutoMerge :: "'n env \<Rightarrow> MergeRequest \<Rightarrow> (MergeResult, 'n) io" where
  "net_attemptAutoMerge e rq = request e (AutoMerge rq) (nc_attemptAutoMerge (net e) rq)"

section \<open>The file tree\<close>

definition getAbstractFileByPath :: "path \<Rightarrow> (entry option, 'n) io" where
  "getAbstractFileByPath p s = (Inr (map_of (vault s) p), s)"

definition isTFile :: "entry option \<Rightarrow> bool" where
  "isTFile f = (case f of Some (FileEntry c t) \<Rightarrow> True | _ \<Rightarrow> False)"

definition vault_read :: "'n env \<Rightarrow> path \<Rightarrow> (string, 'n) io" where
  "vault_read e p s =
     (case map_of (vault s) p of
        Some (FileEntry c t) \<Rightarrow> (Inr c, tick e s)
      | _ \<Rightarrow> (Inl (Error ''File not found''), s))"

text \<open>A write takes time; the file gets the modification time the file tree stamps at
  the time the write completes.\<close>

definition vault_modify :: "'n env \<Rightarrow> path \<Rightarrow> string \<Rightarrow> (unit, 'n) io" where
  "vault_modify e p c s =
     (case map_of (vault s) p of
        Some (FileEntry c0 t0) \<Rightarrow>
          (let s' = tick e s
           in (Inr (), s'\<lparr>vault := AList.update p (FileEntry c (stamp e (now s'))) (vault s')\<rparr>))
      | _ \<Rightarrow> (Inl (Error ''File not found''), s))"

definition vault_create :: "'n env \<Rightarrow> path \<Rightarrow> string \<Rightarrow> (unit, 'n) io" where
  "vault_create e p c s =
     (case map_of (vault s) p of
        None \<Rightarrow>
          (let s' = tick e s
           in (Inr (), s'\<lparr>vault := vault s' @ [(p, FileEntry c (stamp e (now s')))]\<rparr>))
      | Some x \<Rightarrow> (Inl (Error ''File already exists''), s))"

definition vault_createFolder :: "'n env \<Rightarrow> path \<Rightarrow> (unit, 'n) io" where
  "vault_createFolder e p s =
     (case map_of (vault s) p of
        None \<Rightarrow> (let s' = tick e s in (Inr (), s'\<lparr>vault := vault s' @ [(p, FolderEntry)]\<rparr>))
      | Some x \<Rightarrow> (Inl (Error ''Folder already exists''), s))"

definition getFiles :: "'n state \<Rightarrow> path list" where
  "getFiles s = map fst (filter (\<lambda>(p, x). isTFile (Some x)) (vault s))"

definition stat_mtime :: "'n state \<Rightarrow> path \<Rightarrow> nat" where
  "stat_mtime s p = (case map_of (vault s) p of Some (FileEntry c t) \<Rightarrow> t | _ \<Rightarrow> 0)"

definition stat_size :: "'n state \<Rightarrow> path \<Rightarrow> nat" where
  "stat_size s p = (case map_of (vault s) p of Some (FileEntry c t) \<Rightarrow> length c | _ \<Rightarrow> 0)"

text \<open>\<^verbatim>\<open>file.name\<close>: the last segment of the path; \<^verbatim>\<open>file.extension\<close>: what follows its
  last dot.\<close>

definition file_name :: "path \<Rightarrow> string" where
  "file_name p = rev (takeWhile (\<lambda>c. c \<noteq> CHR ''/'') (rev p))"

definition file_extension :: "path \<Rightarrow> string" where
  "file_extension p =
     (let n = file_name p
      in if CHR ''.'' \<in> set n then rev (takeWhile (\<lambda>c. c \<noteq> CHR ''.'') (rev n)) else [])"

text \<open>\<^verbatim>\<open>path.substring(0, path.lastIndexOf('/'))\<close>: empty when there is no slash.\<close>

definition folderPath :: "path \<Rightarrow> path" where
  "folderPath p =
     (if CHR ''/'' \<in> set p then rev (tl (dropWhile (\<lambda>c. c \<noteq> CHR ''/'') (rev p))) else [])"

section \<open>MetadataManager\<close>

text \<open>
  What \<^verbatim>\<open>this.metadata[path] || null\<close> yields: \<^verbatim>\<open>null\<close>, a stored record, or a truthy
  value that is no record and was never stored.  The last arises because a property read
  follows the prototype chain: the members of \<^verbatim>\<open>Object.prototype\<close>, and, once a record is
  the object's prototype, that record's fields (when their values are truthy).  Every
  field the source reads from such a value is \<^verbatim>\<open>undefined\<close>.
\<close>

datatype lookup = Null | Record LocalFileMetadata | Inherited

definition objectPrototypeKeys :: "string list" where
  "objectPrototypeKeys =
     [''constructor'', ''__defineGetter__'', ''__defineSetter__'', ''hasOwnProperty'',
      ''__lookupGetter__'', ''__lookupSetter__'', ''isPrototypeOf'', ''propertyIsEnumerable'',
      ''toString'', ''valueOf'', ''toLocaleString'', ''__proto__'']"

definition truthyField :: "LocalFileMetadata \<Rightarrow> string \<Rightarrow> bool" where
  "truthyField r k =
     (if k = ''path'' then m_path r \<noteq> []
      else if k = ''hash'' then m_hash r \<noteq> []
      else if k = ''size'' then m_size r \<noteq> 0
      else if k = ''revision'' then m_revision r \<noteq> 0
      else if k = ''parentRevision'' then m_parentRevision r \<noteq> 0
      else if k = ''lastSyncedAt'' then m_lastSyncedAt r \<noteq> 0
      else if k = ''deviceId'' then (case m_deviceId r of Some d \<Rightarrow> d \<noteq> [] | None \<Rightarrow> False)
      else False)"

definition getMetadata :: "'n state \<Rightarrow> path \<Rightarrow> lookup" where
  "getMetadata s p =
     (case metadata s p of
        Some m \<Rightarrow> Record m
      | None \<Rightarrow>
          if (protoInstalled s
              \<and> (case metadata s ''__proto__'' of Some r \<Rightarrow> truthyField r p | None \<Rightarrow> False))
             \<or> p \<in> set objectPrototypeKeys
          then Inherited else Null)"

text \<open>\<^verbatim>\<open>localMeta?.revision || 0\<close>.\<close>

definition revisionOf :: "lookup \<Rightarrow> nat" where
  "revisionOf l = (case l of Record m \<Rightarrow> m_revision m | _ \<Rightarrow> 0)"

definition save :: "'n env \<Rightarrow> (unit, 'n) io" where
  "save e s =
     (if writeFails e (now s) then (Inl (Error ''write failed''), tick e s)
      else (Inr (), tick e s))"

definition orElse :: "'a option \<Rightarrow> 'a \<Rightarrow> 'a" where
  "orElse x d = (case x of Some v \<Rightarrow> v | None \<Rightarrow> d)"

text \<open>
  \<^verbatim>\<open>{ ...current, ...meta, path }\<close>: every field of \<open>current\<close> (a record, the object of
  defaults, or an inherited value) is overwritten, by the patch or by \<open>path\<close>, since the
  patch has all six keys.  An inherited function or object spreads to nothing, an
  inherited string to index keys, which nothing reads.
\<close>

definition mergeMetadata :: "path \<Rightarrow> lookup \<Rightarrow> MetadataPatch \<Rightarrow> LocalFileMetadata" where
  "mergeMetadata p current meta =
     \<lparr> m_path = p,
       m_hash = p_hash meta,
       m_size = p_size meta,
       m_revision = p_revision meta,
       m_parentRevision = p_parentRevision meta,
       m_lastSyncedAt = p_lastSyncedAt meta,
       m_deviceId = Some (p_deviceId meta) \<rparr>"

text \<open>\<^verbatim>\<open>this.metadata[path] = record\<close>.\<close>

definition assignRecord :: "path \<Rightarrow> LocalFileMetadata \<Rightarrow> 'n state \<Rightarrow> 'n state" where
  "assignRecord p r s =
     s\<lparr> metadata := (metadata s)(p \<mapsto> r),
        protoInstalled :=
          (if p = ''__proto__'' then metadata s p = None \<or> protoInstalled s
           else protoInstalled s) \<rparr>"

text \<open>\<^verbatim>\<open>delete this.metadata[path]\<close> removes an own property, never the prototype.\<close>

definition deleteOwn :: "path \<Rightarrow> 'n state \<Rightarrow> 'n state" where
  "deleteOwn p s =
     (if p = ''__proto__'' \<and> protoInstalled s then s
      else s\<lparr>metadata := (metadata s)(p := None)\<rparr>)"

text \<open>The object of defaults in \<^verbatim>\<open>saveMetadata\<close>.\<close>

definition defaultMetadata :: "path \<Rightarrow> LocalFileMetadata" where
  "defaultMetadata p =
     \<lparr> m_path = p, m_hash = [], m_size = 0, m_revision = 0, m_parentRevision = 0,
       m_lastSyncedAt = 0, m_deviceId = None \<rparr>"

definition saveMetadata :: "'n env \<Rightarrow> path \<Rightarrow> MetadataPatch \<Rightarrow> (unit, 'n) io" where
  "saveMetadata e p meta s =
     (let current = (case getMetadata s p of Null \<Rightarrow> Record (defaultMetadata p) | l \<Rightarrow> l)
      in save e (assignRecord p (mergeMetadata p current meta) s))"

definition deleteMetadata :: "'n env \<Rightarrow> path \<Rightarrow> (unit, 'n) io" where
  "deleteMetadata e p s =
     (if getMetadata s p \<noteq> Null then save e (deleteOwn p s)
      else (Inr (), s))"

section \<open>SyncManager: single-file operations\<close>

text \<open>\<^verbatim>\<open>x || 0\<close> on a revision that may be undefined.\<close>

definition orZero :: "nat option \<Rightarrow> nat" where
  "orZero x = (case x of Some v \<Rightarrow> v | None \<Rightarrow> 0)"

text \<open>\<^verbatim>\<open>result.file.parentRevision || result.file.revision || 0\<close>.\<close>

definition parentOrRevision :: "RemoteFile \<Rightarrow> nat" where
  "parentOrRevision f =
     (if orZero (rf_parentRevision f) \<noteq> 0 then orZero (rf_parentRevision f)
      else orZero (rf_revision f))"

text \<open>The block \<^verbatim>\<open>// Ensure directory\<close>.\<close>

definition ensureDirectory :: "'n env \<Rightarrow> path \<Rightarrow> (unit, 'n) io" where
  "ensureDirectory e p =
     bindE (getAbstractFileByPath (folderPath p)) (\<lambda>folder.
     if folderPath p \<noteq> [] \<and> folder = None then vault_createFolder e (folderPath p)
     else returnE ())"

text \<open>The block \<^verbatim>\<open>// Write to vault\<close>; its value says whether \<^verbatim>\<open>file\<close> is a
  \<^verbatim>\<open>TFile\<close> afterwards.  A path that names a folder is neither modified nor created.\<close>

definition writeToVault :: "'n env \<Rightarrow> path \<Rightarrow> string \<Rightarrow> (bool, 'n) io" where
  "writeToVault e p content =
     bindE (getAbstractFileByPath p) (\<lambda>file.
     bindE (ensureDirectory e p) (\<lambda>_.
     if isTFile file then bindE (vault_modify e p content) (\<lambda>_. returnE True)
     else if file = None then bindE (vault_create e p content) (\<lambda>_. returnE True)
     else returnE False))"

definition downloadedMetadata :: "RemoteFile \<Rightarrow> nat \<Rightarrow> string \<Rightarrow> MetadataPatch" where
  "downloadedMetadata rfile t dev =
     \<lparr> p_hash = rf_hash rfile,
       p_size = rf_size rfile,
       p_revision = orZero (rf_revision rfile),
       p_parentRevision = parentOrRevision rfile,
       p_lastSyncedAt = t,
       p_deviceId = dev \<rparr>"

text \<open>The block \<^verbatim>\<open>// Update metadata\<close>.\<close>

definition updateMetadata :: "'n env \<Rightarrow> path \<Rightarrow> RemoteFile \<Rightarrow> (unit, 'n) io" where
  "updateMetadata e p rfile =
     bindE getState (\<lambda>s.
     saveMetadata e p (downloadedMetadata rfile (now s) (deviceId s)))"

definition downloadFile_try :: "'n env \<Rightarrow> path \<Rightarrow> nat option \<Rightarrow> (bool, 'n) io" where
  "downloadFile_try e p revision =
     bindE (net_downloadFile e p revision) (\<lambda>result.
       case (d_file result, d_content result) of
         (Some rfile, Some content) \<Rightarrow>
           if d_success result then
             bindE (if d_isConflict result then say (Notice (ServerMarkedConflicted p))
                    else returnE ()) (\<lambda>_.
             bindE (writeToVault e p content) (\<lambda>fileIsTFile.
             bindE (if fileIsTFile then updateMetadata e p rfile else returnE ()) (\<lambda>_.
             returnE True)))
           else returnE False
       | _ \<Rightarrow> returnE False)"

text \<open>The \<^verbatim>\<open>try\<close>/\<^verbatim>\<open>catch\<close> around the whole body: a thrown error is logged and
  becomes \<^verbatim>\<open>false\<close>.\<close>

definition downloadFile :: "'n env \<Rightarrow> path \<Rightarrow> nat option \<Rightarrow> (bool, 'n) io" where
  "downloadFile e p revision s =
     (case downloadFile_try e p revision s of
        (Inl ex, s') \<Rightarrow> (Inr False, emit (Console (ErrorDownloading p ex)) s')
      | (Inr b, s') \<Rightarrow> (Inr b, s'))"

definition deleteFile_try :: "'n env \<Rightarrow> path \<Rightarrow> (bool, 'n) io" where
  "deleteFile_try e p =
     bindE getState (\<lambda>s.
     bindE (net_deleteFile e p
              (revisionOf (getMetadata s p)) (deviceId s))
       (\<lambda>result.
     bindE (if x_conflict result then say (Notice (DeleteConflict p)) else returnE ()) (\<lambda>_.
     bindE (deleteMetadata e p) (\<lambda>_.
     returnE (x_success result)))))"

definition deleteFile :: "'n env \<Rightarrow> path \<Rightarrow> (bool, 'n) io" where
  "deleteFile e p s =
     (case deleteFile_try e p s of
        (Inl ex, s') \<Rightarrow> (Inr False, emit (Console (ErrorDeleting p ex)) s')
      | (Inr b, s') \<Rightarrow> (Inr b, s'))"

section \<open>ConflictHandler\<close>

text \<open>An operation that may also never return (\<open>None\<close>): the resolver calls back into the
  upload, which may call the resolver again.\<close>

type_synonym ('a, 'n) pio = "'n state \<Rightarrow> ((exn + 'a) \<times> 'n state) option"

definition liftP :: "('a, 'n) io \<Rightarrow> ('a, 'n) pio" where
  "liftP m s = Some (m s)"

definition bindP :: "('a, 'n) pio \<Rightarrow> ('a \<Rightarrow> ('b, 'n) pio) \<Rightarrow> ('b, 'n) pio" where
  "bindP m f s =
     (case m s of
        None \<Rightarrow> None
      | Some (Inl ex, s') \<Rightarrow> Some (Inl ex, s')
      | Some (Inr x, s') \<Rightarrow> f x s')"

definition catchE :: "('a, 'n) io \<Rightarrow> (exn \<Rightarrow> ('a, 'n) io) \<Rightarrow> ('a, 'n) io" where
  "catchE m h s = (case m s of (Inl ex, s') \<Rightarrow> h ex s' | (Inr x, s') \<Rightarrow> (Inr x, s'))"

text \<open>\<^verbatim>\<open>new Date().toISOString().replace(/[:.]/g, '-')\<close>.\<close>

definition timestampOf :: "'n env \<Rightarrow> nat \<Rightarrow> string" where
  "timestampOf e t =
     map (\<lambda>c. if c = CHR '':'' \<or> c = CHR ''.'' then CHR ''-'' else c) (toISOString e t)"

definition isSpace :: "char \<Rightarrow> bool" where
  "isSpace c = (c \<in> set [CHR '' '', CHR 0x09, CHR 0x0A, CHR 0x0B, CHR 0x0C, CHR 0x0D])"

definition trim :: "string \<Rightarrow> string" where
  "trim s = rev (dropWhile isSpace (rev (dropWhile isSpace s)))"

text \<open>The template literal of \<^verbatim>\<open>handleManualConflict\<close>, with its line breaks, trimmed.\<close>

definition markedContent :: "string \<Rightarrow> string \<Rightarrow> path \<Rightarrow> string" where
  "markedContent localContent serverContent backupPath =
     trim ([CHR 0x0A] @ ''<<<<<<< LOCAL (Your Version)'' @ [CHR 0x0A]
       @ localContent @ [CHR 0x0A]
       @ ''======='' @ [CHR 0x0A]
       @ serverContent @ [CHR 0x0A]
       @ ''>>>>>>> SERVER (Remote Version)'' @ [CHR 0x0A, CHR 0x0A]
       @ ''<!-- Conflict detected. Please resolve manually and re-sync. -->'' @ [CHR 0x0A]
       @ ''<!-- A backup of the server version has been saved to: '' @ backupPath @ '' -->''
       @ [CHR 0x0A])"

definition handleManualConflict :: "'n env \<Rightarrow> path \<Rightarrow> string \<Rightarrow> string \<Rightarrow> (unit, 'n) io" where
  "handleManualConflict e file localContent serverContent =
     bindE (say (Notice (CannotAutoMerge file))) (\<lambda>_.
     bindE dateNow (\<lambda>t.
       let timestamp = timestampOf e t;
           conflictFileName = file @ ''.conflict-'' @ timestamp @ ''.md''
       in
     bindE (catchE
              (bindE (vault_create e conflictFileName serverContent) (\<lambda>_.
               returnE conflictFileName))
              (\<lambda>ex.
                 let backupPath = ''conflict-'' @ timestamp @ ''-'' @ file_name file
                 in bindE (vault_create e backupPath serverContent) (\<lambda>_.
                    returnE backupPath))) (\<lambda>backupPath.
     bindE (vault_modify e file (markedContent localContent serverContent backupPath)) (\<lambda>_.
     say (Notice (ConflictBackupSaved backupPath))))))"

text \<open>The body of the \<^verbatim>\<open>try\<close> of \<^verbatim>\<open>handleConflict\<close>; \<open>onMergeSuccess\<close> is the callback
  the handler is constructed with.  The flag \<open>resolved\<close> stands for the early
  \<^verbatim>\<open>return\<close> after a successful merge.\<close>

definition handleConflict_try ::
  "'n env \<Rightarrow> (path \<Rightarrow> (bool, 'n) pio) \<Rightarrow> path \<Rightarrow> ConflictInfo \<Rightarrow> (unit, 'n) pio" where
  "handleConflict_try e onMergeSuccess file conflict =
     bindP (liftP (net_downloadFile e file (Some (currentRevision conflict)))) (\<lambda>serverResponse.
       let serverContent = orElse (d_content serverResponse) [] in
     bindP (liftP (if yourParentRevision conflict > 0
                   then bindE (net_downloadFile e file (Some (yourParentRevision conflict)))
                          (\<lambda>ancestorResponse.
                             returnE (Some (orElse (d_content ancestorResponse) [])))
                   else returnE None)) (\<lambda>ancestorContent.
     bindP (liftP (vault_read e file)) (\<lambda>localContent.
     bindP (if ancestorContent \<noteq> None then
              bindP (liftP (net_attemptAutoMerge e
                       \<lparr> filePath = file, ourContent = localContent,
                         ancestorRevision = yourParentRevision conflict,
                         theirRevision = currentRevision conflict \<rparr>)) (\<lambda>mergeResult.
                if g_success mergeResult \<and> \<not> g_hasConflict mergeResult
                   \<and> orElse (g_mergedContent mergeResult) [] \<noteq> []
                then
                  bindP (liftP (say (Notice (AutoMerged file)))) (\<lambda>_.
                  bindP (liftP (vault_modify e file (orElse (g_mergedContent mergeResult) []))) (\<lambda>_.
                  bindP (onMergeSuccess file) (\<lambda>_.
                  liftP (returnE True))))
                else liftP (returnE False))
            else liftP (returnE False)) (\<lambda>resolved.
     if resolved then liftP (returnE ())
     else liftP (handleManualConflict e file localContent serverContent)))))"

definition handleConflict ::
  "'n env \<Rightarrow> (path \<Rightarrow> (bool, 'n) pio) \<Rightarrow> path \<Rightarrow> UploadResult \<Rightarrow> (unit, 'n) pio" where
  "handleConflict e onMergeSuccess file conflictData s =
     (case u_conflict conflictData of
        None \<Rightarrow> Some (say (Notice (ConflictNoInfo file)) s)
      | Some conflict \<Rightarrow>
          (case handleConflict_try e onMergeSuccess file conflict
                  (emit (Notice (ConflictDetected file)) s) of
             None \<Rightarrow> None
           | Some (Inl ex, s') \<Rightarrow>
               Some (Inr (), emit (Notice (ConflictError file))
                               (emit (Console (ErrorHandlingConflict ex)) s'))
           | Some (Inr u, s') \<Rightarrow> Some (Inr u, s')))"

section \<open>SyncManager: upload\<close>

text \<open>\<^verbatim>\<open>result.file?.revision || 0\<close>.\<close>

definition uploadedRevision :: "UploadResult \<Rightarrow> nat" where
  "uploadedRevision result =
     (case u_file result of Some f \<Rightarrow> orZero (rf_revision f) | None \<Rightarrow> 0)"

definition uploadedMetadata :: "UploadResult \<Rightarrow> nat \<Rightarrow> nat \<Rightarrow> string \<Rightarrow> MetadataPatch" where
  "uploadedMetadata result sz t dev =
     \<lparr> p_hash = (case u_file result of Some f \<Rightarrow> rf_hash f | None \<Rightarrow> []),
       p_size = sz,
       p_revision = uploadedRevision result,
       p_parentRevision = uploadedRevision result,
       p_lastSyncedAt = t,
       p_deviceId = dev \<rparr>"

definition recordUpload :: "'n env \<Rightarrow> path \<Rightarrow> UploadResult \<Rightarrow> (unit, 'n) io" where
  "recordUpload e file result =
     bindE getState (\<lambda>s.
     saveMetadata e file (uploadedMetadata result (stat_size s file) (now s) (deviceId s)))"

definition uploadFile_try ::
  "'n env \<Rightarrow> (path \<Rightarrow> (bool, 'n) pio) \<Rightarrow> path \<Rightarrow> (bool, 'n) pio" where
  "uploadFile_try e onMergeSuccess file =
     bindP (liftP (vault_read e file)) (\<lambda>content.
     bindP (liftP getState) (\<lambda>s.
     bindP (liftP (net_uploadFile e file content
                     (revisionOf (getMetadata s file))
                     (deviceId s))) (\<lambda>result.
       if u_success result then
         bindP (liftP (recordUpload e file result)) (\<lambda>_.
         liftP (returnE True))
       else if u_error result = Some ''Conflict detected'' \<and> u_conflict result \<noteq> None then
         bindP (handleConflict e onMergeSuccess file result) (\<lambda>_.
         liftP (returnE False))
       else
         bindP (liftP (say (Console (FailedToUpload file (u_error result))))) (\<lambda>_.
         liftP (returnE False)))))"

text \<open>\<^verbatim>\<open>uploadFile\<close> with its \<^verbatim>\<open>try\<close>/\<^verbatim>\<open>catch\<close>.  The conflict handler is constructed
  with \<^verbatim>\<open>this.uploadFile.bind(this)\<close>, so an upload can nest in an upload; the first
  argument bounds the nesting, and \<open>None\<close> says that the bound was reached.\<close>

primrec uploadFile :: "'n env \<Rightarrow> nat \<Rightarrow> path \<Rightarrow> (bool, 'n) pio" where
  "uploadFile e 0 = (\<lambda>file s. None)"
| "uploadFile e (Suc k) = (\<lambda>file s.
     case uploadFile_try e (uploadFile e k) file s of
       None \<Rightarrow> None
     | Some (Inl ex, s') \<Rightarrow> Some (Inr False, emit (Console (ErrorUploading file ex)) s')
     | Some (Inr b, s') \<Rightarrow> Some (Inr b, s'))"

section \<open>SyncManager: the full pass\<close>

definition toLowerCase :: "string \<Rightarrow> string" where
  "toLowerCase =
     map (\<lambda>c. if 65 \<le> (of_char c :: nat) \<and> (of_char c :: nat) \<le> 90
               then char_of ((of_char c :: nat) + 32) else c)"

definition shouldSyncFile :: "path \<Rightarrow> bool" where
  "shouldSyncFile file =
     (toLowerCase (file_extension file)
        \<in> set [''md'', ''txt'', ''json'', ''css'', ''js'', ''html'', ''xml'', ''yaml'', ''yml''])"

text \<open>The test of the downward loop: \<^verbatim>\<open>!localMeta || remoteRev > localRev\<close>.\<close>

definition needsDownload :: "lookup \<Rightarrow> RemoteFile \<Rightarrow> bool" where
  "needsDownload localMeta remote =
     (let remoteRev = orZero (rf_revision remote);
          localRev = revisionOf localMeta
      in localMeta = Null \<or> remoteRev > localRev)"

fun downwardSync :: "'n env \<Rightarrow> RemoteFile list \<Rightarrow> nat \<Rightarrow> (nat, 'n) io" where
  "downwardSync e [] downloaded s = (Inr downloaded, s)"
| "downwardSync e (remote # rest) downloaded s =
     (if needsDownload (getMetadata s (rf_path remote)) remote then
        (case downloadFile e (rf_path remote) (Some (orZero (rf_revision remote))) s of
           (Inl ex, s') \<Rightarrow> (Inl ex, s')
         | (Inr success, s') \<Rightarrow>
             downwardSync e rest (if success then downloaded + 1 else downloaded) s')
      else downwardSync e rest downloaded s)"

text \<open>The test of the upward loop: \<^verbatim>\<open>!meta || file.stat.mtime > meta.lastSyncedAt\<close>.  On
  an inherited value \<^verbatim>\<open>meta.lastSyncedAt\<close> is \<^verbatim>\<open>undefined\<close>, and the comparison is false.\<close>

definition needsUpload :: "'n state \<Rightarrow> path \<Rightarrow> bool" where
  "needsUpload s file =
     (case getMetadata s file of
        Null \<Rightarrow> True
      | Record meta \<Rightarrow> stat_mtime s file > m_lastSyncedAt meta
      | Inherited \<Rightarrow> False)"

fun upwardSync :: "'n env \<Rightarrow> nat \<Rightarrow> path list \<Rightarrow> nat \<Rightarrow> (nat, 'n) pio" where
  "upwardSync e fuel [] uploaded s = Some (Inr uploaded, s)"
| "upwardSync e fuel (file # rest) uploaded s =
     (if needsUpload s file then
        (case uploadFile e fuel file s of
           None \<Rightarrow> None
         | Some (Inl ex, s') \<Rightarrow> Some (Inl ex, s')
         | Some (Inr result, s') \<Rightarrow>
             upwardSync e fuel rest (if result then uploaded + 1 else uploaded) s')
      else upwardSync e fuel rest uploaded s)"

text \<open>\<^verbatim>\<open>listResult.error || 'Failed to list remote files'\<close>.\<close>

definition listError :: "ListResult \<Rightarrow> string" where
  "listError r =
     (case l_error r of
        Some m \<Rightarrow> if m = [] then ''Failed to list remote files'' else m
      | None \<Rightarrow> ''Failed to list remote files'')"

text \<open>The body of the \<^verbatim>\<open>try\<close> of \<^verbatim>\<open>syncVault\<close>.  It returns the two counters
  \<open>(downloaded, uploaded)\<close>, which the source only shows in its closing notice.\<close>

definition syncVault_try :: "'n env \<Rightarrow> nat \<Rightarrow> bool \<Rightarrow> (nat \<times> nat, 'n) pio" where
  "syncVault_try e fuel silent =
     bindP (liftP (net_listFiles e)) (\<lambda>listResult.
       case l_files listResult of
         None \<Rightarrow> liftP (throwE (Error (listError listResult)))
       | Some remoteFiles \<Rightarrow>
           if \<not> l_success listResult then liftP (throwE (Error (listError listResult)))
           else
             bindP (liftP (downwardSync e remoteFiles 0)) (\<lambda>downloaded.
             bindP (liftP getState) (\<lambda>s.
             bindP (upwardSync e fuel (filter shouldSyncFile (getFiles s)) 0) (\<lambda>uploaded.
             bindP (liftP (if \<not> silent then
                             say (Notice (if downloaded > 0 \<or> uploaded > 0
                                          then SyncCompleted downloaded uploaded
                                          else SyncUpToDate))
                           else returnE ())) (\<lambda>_.
             liftP (returnE (downloaded, uploaded)))))))"

text \<open>\<^verbatim>\<open>syncVault\<close>: the two guards, the in-flight flag, \<^verbatim>\<open>catch\<close> and \<^verbatim>\<open>finally\<close>.
  The result is the pair of counters of a pass that completed, and the state.\<close>

definition syncVault ::
  "'n env \<Rightarrow> nat \<Rightarrow> bool \<Rightarrow> 'n state \<Rightarrow> ((nat \<times> nat) option \<times> 'n state) option" where
  "syncVault e fuel silent s =
     (if token s = [] then Some (None, emit (Notice NotAuthenticated) s)
      else if isSyncing s then Some (None, emit (Notice SyncInProgress) s)
      else
        (let s1 = s\<lparr>isSyncing := True\<rparr>;
             s2 = (if \<not> silent then emit (Notice SyncStarting) s1 else s1)
         in case syncVault_try e fuel silent s2 of
              None \<Rightarrow> None
            | Some (Inl (Error msg), s3) \<Rightarrow>
                Some (None, (emit (Notice (SyncFailed msg))
                               (emit (Console (SyncFailedLog (Error msg))) s3))
                            \<lparr>isSyncing := False\<rparr>)
            | Some (Inr summary, s3) \<Rightarrow> Some (Some summary, s3\<lparr>isSyncing := False\<rparr>)))"

section \<open>Observations and test environments\<close>

text \<open>The download requests among the events, and the stored revision of a path
  (\<^verbatim>\<open>localMeta?.revision || 0\<close>).\<close>

definition downloadRequests :: "event list \<Rightarrow> (path \<times> nat option) list" where
  "downloadRequests evs =
     concat (map (\<lambda>ev. case ev of Net (Download p r) \<Rightarrow> [(p, r)] | _ \<Rightarrow> []) evs)"

definition storedRevision :: "'n state \<Rightarrow> path \<Rightarrow> nat" where
  "storedRevision s p = revisionOf (getMetadata s p)"

text \<open>A transport that answers every request with a fixed result, and one whose every
  call throws; an environment around a transport (each awaited operation takes one
  millisecond, the adapter's writes succeed).\<close>

definition fixedNet ::
  "ListResult \<Rightarrow> UploadResult \<Rightarrow> DownloadResult \<Rightarrow> DeleteResult \<Rightarrow> MergeResult
     \<Rightarrow> unit NetworkClient" where
  "fixedNet l u d x g =
     \<lparr> nc_listFiles = (\<lambda>n. (Inr l, n)),
       nc_uploadFile = (\<lambda>p c parent dev n. (Inr u, n)),
       nc_downloadFile = (\<lambda>p r n. (Inr d, n)),
       nc_deleteFile = (\<lambda>p parent dev n. (Inr x, n)),
       nc_attemptAutoMerge = (\<lambda>rq n. (Inr g, n)) \<rparr>"

definition failingNet :: "unit NetworkClient" where
  "failingNet =
     \<lparr> nc_listFiles = (\<lambda>n. (Inl (Error ''offline''), n)),
       nc_uploadFile = (\<lambda>p c parent dev n. (Inl (Error ''offline''), n)),
       nc_downloadFile = (\<lambda>p r n. (Inl (Error ''offline''), n)),
       nc_deleteFile = (\<lambda>p parent dev n. (Inl (Error ''offline''), n)),
       nc_attemptAutoMerge = (\<lambda>rq n. (Inl (Error ''offline''), n)) \<rparr>"

definition testEnv :: "unit NetworkClient \<Rightarrow> unit env" where
  "testEnv nc =
     \<lparr> net = nc, elapse = (\<lambda>t. 1), stamp = (\<lambda>t. t), writeFails = (\<lambda>t. False),
       toISOString = (\<lambda>t. ''2026-01-01T00:00:00.000Z'') \<rparr>"

definition testMeta :: "path \<Rightarrow> nat \<Rightarrow> nat \<Rightarrow> LocalFileMetadata" where
  "testMeta p r t =
     \<lparr> m_path = p, m_hash = ''h'', m_size = 1, m_revision = r, m_parentRevision = r,
       m_lastSyncedAt = t, m_deviceId = Some ''dev'' \<rparr>"

definition testState ::
  "string \<Rightarrow> bool \<Rightarrow> (path \<rightharpoonup> LocalFileMetadata) \<Rightarrow> (path \<times> entry) list \<Rightarrow> unit state" where
  "testState tok busy md v =
     \<lparr> token = tok, deviceId = ''dev'', isSyncing = busy, metadata = md,
       protoInstalled = False, vault = v, server = (), now = 100, events = [] \<rparr>"

text \<open>An environment whose transport answers every download with a file at
  \<^verbatim>\<open>__proto__\<close>.\<close>

definition protoEnv :: "unit env" where
  "protoEnv =
     testEnv (fixedNet \<lparr> l_success = True, l_files = Some [], l_error = None \<rparr>
        \<lparr> u_success = False, u_file = None, u_error = None, u_conflict = None \<rparr>
        \<lparr> d_success = True,
          d_file = Some \<lparr> rf_path = ''__proto__'', rf_hash = ''h'', rf_revision = Some 3,
                         rf_parentRevision = None, rf_size = 1 \<rparr>,
          d_content = Some ''x'', d_isConflict = False \<rparr>
        \<lparr> x_success = True, x_conflict = False \<rparr>
        \<lparr> g_success = False, g_hasConflict = True, g_mergedContent = None \<rparr>)"

definition okList :: "RemoteFile list \<Rightarrow> ListResult" where
  "okList fs = \<lparr> l_success = True, l_files = Some fs, l_error = None \<rparr>"

definition okUpload :: "path \<Rightarrow> nat \<Rightarrow> UploadResult" where
  "okUpload p r =
     \<lparr> u_success = True,
       u_file = Some \<lparr> rf_path = p, rf_hash = ''h'', rf_revision = Some r,
                      rf_parentRevision = None, rf_size = 1 \<rparr>,
       u_error = None, u_conflict = None \<rparr>"

definition okDownload :: "path \<Rightarrow> nat \<Rightarrow> nat option \<Rightarrow> string \<Rightarrow> DownloadResult" where
  "okDownload p r parent c =
     \<lparr> d_success = True,
       d_file = Some \<lparr> rf_path = p, rf_hash = ''h'', rf_revision = Some r,
                      rf_parentRevision = parent, rf_size = length c \<rparr>,
       d_content = Some c, d_isConflict = False \<rparr>"

definition noDownload :: DownloadResult where
  "noDownload = \<lparr> d_success = False, d_file = None, d_content = None, d_isConflict = False \<rparr>"

definition rejectedUpload :: "nat \<Rightarrow> nat \<Rightarrow> UploadResult" where
  "rejectedUpload current parent =
     \<lparr> u_success = False, u_file = None, u_error = Some ''Conflict detected'',
       u_conflict = Some \<lparr> currentRevision = current, yourParentRevision = parent \<rparr> \<rparr>"

definition failedUpload :: UploadResult where
  "failedUpload =
     \<lparr> u_success = False, u_file = None, u_error = Some ''Quota exceeded'', u_conflict = None \<rparr>"

definition remoteFile :: "path \<Rightarrow> nat \<Rightarrow> RemoteFile" where
  "remoteFile p r =
     \<lparr> rf_path = p, rf_hash = ''h'', rf_revision = Some r, rf_parentRevision = None,
       rf_size = 1 \<rparr>"

definition okDelete :: "bool \<Rightarrow> DeleteResult" where
  "okDelete c = \<lparr> x_success = True, x_conflict = c \<rparr>"

definition noMerge :: MergeResult where
  "noMerge = \<lparr> g_success = False, g_hasConflict = True, g_mergedContent = None \<rparr>"

text \<open>All requests among the events.\<close>

definition requestsOf :: "event list \<Rightarrow> request list" where
  "requestsOf evs = concat (map (\<lambda>ev. case ev of Net rq \<Rightarrow> [rq] | _ \<Rightarrow> []) evs)"













section \<open>Running an operation against a postcondition\<close>

definition wp :: "('a, 'n) io \<Rightarrow> (exn + 'a \<Rightarrow> 'n state \<Rightarrow> bool) \<Rightarrow> 'n state \<Rightarrow> bool" where
  "wp m Q s = (case m s of (r, s') \<Rightarrow> Q r s')"

text \<open>The same for an operation that may not return; \<open>d\<close> is the verdict in that case.\<close>

definition wpP ::
  "('a, 'n) pio \<Rightarrow> (exn + 'a \<Rightarrow> 'n state \<Rightarrow> bool) \<Rightarrow> bool \<Rightarrow> 'n state \<Rightarrow> bool" where
  "wpP m Q d s = (case m s of None \<Rightarrow> d | Some (r, s') \<Rightarrow> Q r s')"

text \<open>\<open>leP m m'\<close>: wherever \<open>m\<close> returns, \<open>m'\<close> returns the same.\<close>

definition leP :: "('a, 'n) pio \<Rightarrow> ('a, 'n) pio \<Rightarrow> bool" where
  "leP m m' = (\<forall>s r. m s = Some r \<longrightarrow> m' s = Some r)"




section \<open>Basic facts\<close>

declare uploadFile.simps [simp del]

lemma tick_fields [simp]:
  "token (tick e s) = token s" "deviceId (tick e s) = deviceId s"
  "isSyncing (tick e s) = isSyncing s" "metadata (tick e s) = metadata s"
  "vault (tick e s) = vault s" "server (tick e s) = server s"
  "now (tick e s) = now s + elapse e (now s)" "events (tick e s) = events s"
  "protoInstalled (tick e s) = protoInstalled s"
  by (simp_all add: tick_def)

lemma emit_fields [simp]:
  "token (emit ev s) = token s" "deviceId (emit ev s) = deviceId s"
  "isSyncing (emit ev s) = isSyncing s" "metadata (emit ev s) = metadata s"
  "vault (emit ev s) = vault s" "server (emit ev s) = server s"
  "now (emit ev s) = now s" "events (emit ev s) = events s @ [ev]"
  "protoInstalled (emit ev s) = protoInstalled s"
  by (simp_all add: emit_def)

lemma getMetadata_cong:
  "metadata s = metadata s' \<Longrightarrow> protoInstalled s = protoInstalled s'
     \<Longrightarrow> getMetadata s p = getMetadata s' p"
  by (auto simp: getMetadata_def split: option.split)

lemma getMetadata_frame [simp]:
  "getMetadata (tick e s) p = getMetadata s p"
  "getMetadata (emit ev s) p = getMetadata s p"
  "getMetadata (s\<lparr>vault := v\<rparr>) p = getMetadata s p"
  "getMetadata (s\<lparr>server := n\<rparr>) p = getMetadata s p"
  "getMetadata (s\<lparr>events := evs\<rparr>) p = getMetadata s p"
  "getMetadata (s\<lparr>now := t\<rparr>) p = getMetadata s p"
  "getMetadata (s\<lparr>isSyncing := b\<rparr>) p = getMetadata s p"
  by (rule getMetadata_cong; simp)+

lemmas lookup_defs = getMetadata_def revisionOf_def objectPrototypeKeys_def

lemma storedRevision_Record: "metadata s p = Some m \<Longrightarrow> storedRevision s p = m_revision m"
  by (simp add: storedRevision_def getMetadata_def revisionOf_def)

lemma storedRevision_None: "metadata s p = None \<Longrightarrow> storedRevision s p = 0"
  by (simp add: storedRevision_def getMetadata_def revisionOf_def)


lemma getMetadata_Null: "getMetadata s p = Null \<Longrightarrow> metadata s p = None"
  by (simp add: getMetadata_def split: option.splits if_splits)

subsection \<open>Rules for the primitive operations\<close>

lemma wpI: "wp m (\<lambda>r s'. P r s') s \<Longrightarrow> P (fst (m s)) (snd (m s))"
  by (simp add: wp_def split: prod.splits)

lemma wp_bindE:
  "wp (bindE m f) Q s
     = wp m (\<lambda>r s'. case r of Inl ex \<Rightarrow> Q (Inl ex) s' | Inr x \<Rightarrow> wp (f x) Q s') s"
  by (simp add: wp_def bindE_def split: prod.split sum.split)

lemma wp_returnE: "wp (returnE x) Q s = Q (Inr x) s"
  by (simp add: wp_def returnE_def)

lemma wp_throwE: "wp (throwE ex) Q s = Q (Inl ex) s"
  by (simp add: wp_def throwE_def)

lemma wp_say: "wp (say ev) Q s = Q (Inr ()) (emit ev s)"
  by (simp add: wp_def say_def)

lemma wp_getState: "wp getState Q s = Q (Inr s) s"
  by (simp add: wp_def getState_def)

lemma wp_dateNow: "wp dateNow Q s = Q (Inr (now s)) s"
  by (simp add: wp_def dateNow_def)

lemma wp_getAbstractFileByPath:
  "wp (getAbstractFileByPath p) Q s = Q (Inr (map_of (vault s) p)) s"
  by (simp add: wp_def getAbstractFileByPath_def)

lemma wp_request:
  "wp (request e rq call) Q s
     = Q (fst (call (server s))) (tick e (emit (Net rq) (s\<lparr>server := snd (call (server s))\<rparr>)))"
  by (simp add: wp_def request_def split: prod.split)

lemma request_eq:
  "request e rq call s
     = (fst (call (server s)), tick e (emit (Net rq) (s\<lparr>server := snd (call (server s))\<rparr>)))"
  by (simp add: request_def split: prod.split)

lemma wp_save:
  "wp (save e) Q s
     = Q (if writeFails e (now s) then Inl (Error ''write failed'') else Inr ()) (tick e s)"
  by (simp add: wp_def save_def)

lemma wp_deleteMetadata:
  "wp (deleteMetadata e p) Q s
     = (if getMetadata s p \<noteq> Null
        then Q (if writeFails e (now s) then Inl (Error ''write failed'') else Inr ())
               (tick e (deleteOwn p s))
        else Q (Inr ()) s)"
  by (simp add: wp_def deleteMetadata_def save_def deleteOwn_def)

lemma wp_vault_read:
  "wp (vault_read e p) Q s
     = (case map_of (vault s) p of
          Some (FileEntry c t) \<Rightarrow> Q (Inr c) (tick e s)
        | _ \<Rightarrow> Q (Inl (Error ''File not found'')) s)"
  by (simp add: wp_def vault_read_def split: option.split entry.split)

lemma wp_vault_modify:
  "wp (vault_modify e p c) Q s
     = (if isTFile (map_of (vault s) p)
        then Q (Inr ()) ((tick e s)\<lparr>vault := AList.update p (FileEntry c (stamp e (now (tick e s)))) (vault s)\<rparr>)
        else Q (Inl (Error ''File not found'')) s)"
  by (simp add: wp_def vault_modify_def isTFile_def Let_def split: option.split entry.split)

lemma wp_vault_create:
  "wp (vault_create e p c) Q s
     = (if map_of (vault s) p = None
        then Q (Inr ()) ((tick e s)\<lparr>vault := vault s @ [(p, FileEntry c (stamp e (now (tick e s))))]\<rparr>)
        else Q (Inl (Error ''File already exists'')) s)"
  by (simp add: wp_def vault_create_def Let_def split: option.split)

lemma wp_vault_createFolder:
  "wp (vault_createFolder e p) Q s
     = (if map_of (vault s) p = None
        then Q (Inr ()) ((tick e s)\<lparr>vault := vault s @ [(p, FolderEntry)]\<rparr>)
        else Q (Inl (Error ''Folder already exists'')) s)"
  by (simp add: wp_def vault_createFolder_def Let_def split: option.split)

lemma wp_saveMetadata:
  "wp (saveMetadata e p meta) Q s
     = Q (if writeFails e (now s) then Inl (Error ''write failed'') else Inr ())
         (tick e (assignRecord p (mergeMetadata p Null meta) s))"
  by (simp add: wp_def saveMetadata_def save_def mergeMetadata_def assignRecord_def Let_def)

lemma assignRecord_fields [simp]:
  "metadata (assignRecord p r s) = (metadata s)(p \<mapsto> r)"
  "vault (assignRecord p r s) = vault s"
  "events (assignRecord p r s) = events s"
  "server (assignRecord p r s) = server s"
  "now (assignRecord p r s) = now s"
  "token (assignRecord p r s) = token s"
  "deviceId (assignRecord p r s) = deviceId s"
  "isSyncing (assignRecord p r s) = isSyncing s"
  "protoInstalled (assignRecord p r s)
     = (if p = ''__proto__'' then metadata s p = None \<or> protoInstalled s else protoInstalled s)"
  by (simp_all add: assignRecord_def)

lemma deleteOwn_fields [simp]:
  "metadata (deleteOwn p s)
     = (if p = ''__proto__'' \<and> protoInstalled s then metadata s else (metadata s)(p := None))"
  "vault (deleteOwn p s) = vault s"
  "events (deleteOwn p s) = events s"
  "server (deleteOwn p s) = server s"
  "now (deleteOwn p s) = now s"
  "token (deleteOwn p s) = token s"
  "deviceId (deleteOwn p s) = deviceId s"
  "isSyncing (deleteOwn p s) = isSyncing s"
  "protoInstalled (deleteOwn p s) = protoInstalled s"
  by (simp_all add: deleteOwn_def)

lemma folderPath_neq: "folderPath p \<noteq> [] \<Longrightarrow> folderPath p \<noteq> p"
proof -
  assume a: "folderPath p \<noteq> []"
  then have sl: "CHR ''/'' \<in> set p" by (auto simp: folderPath_def split: if_splits)
  then have ne: "dropWhile (\<lambda>c. c \<noteq> CHR ''/'') (rev p) \<noteq> []" by simp
  have "length (folderPath p) = length (dropWhile (\<lambda>c. c \<noteq> CHR ''/'') (rev p)) - 1"
    using sl by (simp add: folderPath_def)
  also have "\<dots> < length (dropWhile (\<lambda>c. c \<noteq> CHR ''/'') (rev p))"
    using ne by (cases "dropWhile (\<lambda>c. c \<noteq> CHR ''/'') (rev p)") auto
  also have "\<dots> \<le> length (rev p)" by (rule length_dropWhile_le)
  finally show ?thesis by auto
qed

lemma wp_ensureDirectory:
  "wp (ensureDirectory e p) Q s
     = (if folderPath p \<noteq> [] \<and> map_of (vault s) (folderPath p) = None
        then Q (Inr ()) ((tick e s)\<lparr>vault := vault s @ [(folderPath p, FolderEntry)]\<rparr>)
        else Q (Inr ()) s)"
  by (simp add: ensureDirectory_def wp_bindE wp_getAbstractFileByPath wp_vault_createFolder wp_returnE)

lemmas wp_rules = wp_getState wp_bindE wp_returnE wp_throwE wp_say wp_dateNow wp_getAbstractFileByPath
  wp_request wp_save wp_deleteMetadata


lemma map_of_snoc: "map_of (xs @ [(k, v)]) k' = (case map_of xs k' of Some x \<Rightarrow> Some x | None \<Rightarrow> if k' = k then Some v else None)"
  by (simp add: map_add_def split: option.split)

text \<open>The write block never throws: each of its file-tree calls is guarded.\<close>

lemma wp_writeToVault:
  "wp (writeToVault e p c) Q s
     = (let s1 = (if folderPath p \<noteq> [] \<and> map_of (vault s) (folderPath p) = None
                  then (tick e s)\<lparr>vault := vault s @ [(folderPath p, FolderEntry)]\<rparr> else s)
        in if isTFile (map_of (vault s) p)
           then Q (Inr True) ((tick e s1)\<lparr>vault := AList.update p (FileEntry c (stamp e (now (tick e s1)))) (vault s1)\<rparr>)
           else if map_of (vault s) p = None
           then Q (Inr True) ((tick e s1)\<lparr>vault := vault s1 @ [(p, FileEntry c (stamp e (now (tick e s1))))]\<rparr>)
           else Q (Inr False) s1)"
  using folderPath_neq [of p]
  by (auto simp: writeToVault_def wp_bindE wp_getAbstractFileByPath wp_ensureDirectory wp_vault_modify
      wp_vault_create wp_returnE map_of_snoc isTFile_def split: option.split entry.split)


lemma wp_updateMetadata:
  "wp (updateMetadata e p rfile) Q s
     = Q (if writeFails e (now s) then Inl (Error ''write failed'') else Inr ())
         (tick e (assignRecord p
            (mergeMetadata p Null (downloadedMetadata rfile (now s) (deviceId s))) s))"
  by (simp add: updateMetadata_def wp_bindE wp_getState wp_saveMetadata)

lemma downloadRequests_simps [simp]:
  "downloadRequests [] = []"
  "downloadRequests (xs @ ys) = downloadRequests xs @ downloadRequests ys"
  "downloadRequests (Net (Download p r) # evs) = (p, r) # downloadRequests evs"
  "downloadRequests (Notice n # evs) = downloadRequests evs"
  "downloadRequests (Console c # evs) = downloadRequests evs"
  by (simp_all add: downloadRequests_def)

lemmas wp_download = wp_bindE wp_returnE wp_say wp_request wp_writeToVault wp_updateMetadata

lemma downloadFile_try_requests:
  "wp (downloadFile_try e p rv)
      (\<lambda>r s'. downloadRequests (events s') = downloadRequests (events s) @ [(p, rv)]) s"
  by (simp add: downloadFile_try_def net_downloadFile_def wp_download Let_def
      split: sum.split option.split)

lemma downloadFile_try_frame:
  "q \<noteq> p \<Longrightarrow> wp (downloadFile_try e p rv) (\<lambda>r s'. metadata s' q = metadata s q) s"
  by (simp add: downloadFile_try_def net_downloadFile_def wp_download Let_def
      split: sum.split option.split)

lemma downloadFile_try_proto:
  "p \<noteq> ''__proto__'' \<Longrightarrow>
   wp (downloadFile_try e p rv) (\<lambda>r s'. protoInstalled s' = protoInstalled s) s"
  by (simp add: downloadFile_try_def net_downloadFile_def wp_download Let_def
      split: sum.split option.split)


subsection \<open>Downloads\<close>

lemma downloadFile_eq:
  "downloadFile e p rv s
     = (case fst (downloadFile_try e p rv s) of
          Inl ex \<Rightarrow> (Inr False, emit (Console (ErrorDownloading p ex)) (snd (downloadFile_try e p rv s)))
        | Inr b \<Rightarrow> (Inr b, snd (downloadFile_try e p rv s)))"
  by (simp add: downloadFile_def split: prod.split sum.split)

lemma downloadFile_events:
  "downloadRequests (events (snd (downloadFile e p rv s)))
     = downloadRequests (events (snd (downloadFile_try e p rv s)))"
  by (simp add: downloadFile_def split: prod.split sum.split)

lemma downloadFile_metadata:
  "metadata (snd (downloadFile e p rv s)) = metadata (snd (downloadFile_try e p rv s))"
  by (simp add: downloadFile_def split: prod.split sum.split)

lemma downloadFile_requests:
  "downloadRequests (events (snd (downloadFile e p rv s))) = downloadRequests (events s) @ [(p, rv)]"
  using wpI [OF downloadFile_try_requests] by (simp add: downloadFile_events)

lemma downloadFile_frame:
  "q \<noteq> p \<Longrightarrow> metadata (snd (downloadFile e p rv s)) q = metadata s q"
  using wpI [OF downloadFile_try_frame] by (simp add: downloadFile_metadata)

lemma downloadFile_proto:
  "p \<noteq> ''__proto__'' \<Longrightarrow> protoInstalled (snd (downloadFile e p rv s)) = protoInstalled s"
  using wpI [OF downloadFile_try_proto, of p e rv s]
  by (simp add: downloadFile_eq split: sum.split)

lemma getMetadata_frame_at:
  assumes "metadata s' q = metadata s q" and "protoInstalled s' = protoInstalled s"
    and "metadata s' ''__proto__'' = metadata s ''__proto__''"
  shows "getMetadata s' q = getMetadata s q"
  using assms by (auto simp: getMetadata_def split: option.split)

lemma downloadFile_lookup_frame:
  assumes "q \<noteq> p" and "p \<noteq> ''__proto__''"
  shows "getMetadata (snd (downloadFile e p rv s)) q = getMetadata s q"
  using assms by (intro getMetadata_frame_at downloadFile_frame downloadFile_proto) auto

lemma downloadFile_returns: "\<exists>b. fst (downloadFile e p rv s) = Inr b"
  by (auto simp: downloadFile_def split: prod.split sum.split)

lemma downwardSync_requests:
  "distinct (map rf_path remotes) \<Longrightarrow> ''__proto__'' \<notin> rf_path ` set remotes \<Longrightarrow>
   downloadRequests (events (snd (downwardSync e remotes d s)))
     = downloadRequests (events s)
       @ map (\<lambda>r. (rf_path r, Some (orZero (rf_revision r))))
           (filter (\<lambda>r. needsDownload (getMetadata s (rf_path r)) r) remotes)"
proof (induction remotes arbitrary: d s)
  case Nil
  then show ?case by simp
next
  case (Cons remote rest)
  let ?p = "rf_path remote"
  let ?rv = "Some (orZero (rf_revision remote))"
  let ?need = "\<lambda>s r. needsDownload (getMetadata s (rf_path r)) r"
  have dist: "distinct (map rf_path rest)" and notin: "?p \<notin> rf_path ` set rest"
    and np: "''__proto__'' \<notin> rf_path ` set rest" and pn: "?p \<noteq> ''__proto__''"
    using Cons.prems by auto
  show ?case
  proof (cases "?need s remote")
    case False
    then show ?thesis
      using Cons.IH [OF dist np, of d s] by simp
  next
    case True
    obtain b where b: "fst (downloadFile e ?p ?rv s) = Inr b"
      using downloadFile_returns by blast
    define s' where "s' = snd (downloadFile e ?p ?rv s)"
    have run: "downloadFile e ?p ?rv s = (Inr b, s')"
      using b by (simp add: s'_def prod_eq_iff)
    have same: "filter (?need s') rest = filter (?need s) rest"
    proof (rule filter_cong [OF refl])
      fix r assume "r \<in> set rest"
      then have "rf_path r \<noteq> ?p" using notin by (metis imageI)
      then have "getMetadata s' (rf_path r) = getMetadata s (rf_path r)"
        unfolding s'_def using pn by (rule downloadFile_lookup_frame)
      then show "?need s' r = ?need s r" by simp
    qed
    have "downloadRequests (events s') = downloadRequests (events s) @ [(?p, ?rv)]"
      unfolding s'_def by (rule downloadFile_requests)
    then show ?thesis
      using True run same Cons.IH [OF dist np, of "if b then d + 1 else d" s'] by simp
  qed
qed


lemma mergeMetadata_downloaded [simp]:
  "m_revision (mergeMetadata p cur (downloadedMetadata rfile t dev)) = orZero (rf_revision rfile)"
  "m_parentRevision (mergeMetadata p cur (downloadedMetadata rfile t dev)) = parentOrRevision rfile"
  "m_lastSyncedAt (mergeMetadata p cur (downloadedMetadata rfile t dev)) = t"
  "m_hash (mergeMetadata p cur (downloadedMetadata rfile t dev)) = rf_hash rfile"
  by (simp_all add: mergeMetadata_def downloadedMetadata_def)


lemma downloadFile_try_revision:
  "wp (downloadFile_try e p rv)
     (\<lambda>r s'. metadata s' p = metadata s p
        \<or> (\<exists>result rfile m. fst (nc_downloadFile (net e) p rv (server s)) = Inr result
              \<and> d_file result = Some rfile \<and> metadata s' p = Some m
              \<and> m_revision m = orZero (rf_revision rfile))) s"
  by (simp add: downloadFile_try_def net_downloadFile_def wp_download Let_def
      split: sum.split option.split)


lemmas eval_defs = needsDownload_def lookup_defs downloadFile_def downloadFile_try_def
  net_downloadFile_def request_eq bindE_def returnE_def say_def writeToVault_def
  ensureDirectory_def getAbstractFileByPath_def vault_create_def vault_modify_def
  updateMetadata_def getState_def saveMetadata_def save_def mergeMetadata_def assignRecord_def
  revisionOf_def defaultMetadata_def downloadedMetadata_def orElse_def orZero_def parentOrRevision_def isTFile_def folderPath_def
  testEnv_def fixedNet_def okDownload_def testState_def testMeta_def remoteFile_def
  storedRevision_def tick_def emit_def Let_def

section \<open>The downward phase\<close>


lemma downwardSync_skip:
  "\<not> needsDownload (getMetadata s (rf_path r)) r
     \<Longrightarrow> downwardSync e (r # rest) d s = downwardSync e rest d s"
  by simp


text \<open>
  C3: the downward loop downloads a descriptor when \<^verbatim>\<open>!localMeta || remoteRev > localRev\<close>,
  where \<open>localMeta\<close> is what the lookup \<^verbatim>\<open>this.metadata[path] || null\<close> yields
  (\<open>needsDownload_simps\<close>, \<open>downwardSync_skip\<close>, \<open>downwardSync_download\<close>, and
  \<open>downwardSync_requests\<close> for the requests of a whole snapshot).  For a path with
  a record, and for a path without one on which the lookup yields \<^verbatim>\<open>null\<close>, this is the
  claim.  But on a path that names a member of \<^verbatim>\<open>Object.prototype\<close> the lookup yields that
  member although the store has no record, and the descriptor is downloaded only if its
  revision is greater than 0.  Here the store is empty and the snapshot lists
  \<^verbatim>\<open>constructor\<close> and \<^verbatim>\<open>a.md\<close>, both without a revision: no record exists for either path,
  and the only download request is the one for \<^verbatim>\<open>a.md\<close>.
\<close>

theorem C3_inherited_key_skipped:
  "metadata (testState ''tok'' False Map.empty []) ''constructor'' = None
   \<and> metadata (testState ''tok'' False Map.empty []) ''a.md'' = None
   \<and> downloadRequests (events (snd (downwardSync
        (testEnv (fixedNet (okList []) (okUpload ''a.md'' 1) (okDownload ''a.md'' 0 None ''x'')
           (okDelete False) noMerge))
        [\<lparr> rf_path = ''constructor'', rf_hash = ''h'', rf_revision = None,
            rf_parentRevision = None, rf_size = 1 \<rparr>,
         \<lparr> rf_path = ''a.md'', rf_hash = ''h'', rf_revision = None,
            rf_parentRevision = None, rf_size = 1 \<rparr>]
        0 (testState ''tok'' False Map.empty []))))
     = [(''a.md'', Some 0)]"
  by (simp add: eval_defs)

section \<open>What a download records\<close>




section \<open>Uploads\<close>

lemma wpP_I: "wpP m (\<lambda>r s'. P r s') d s \<Longrightarrow> m s = Some (r, s') \<Longrightarrow> P r s'"
  by (simp add: wpP_def)

lemma wpP_total: "wpP m (\<lambda>r s'. P r s') False s \<Longrightarrow> \<exists>r s'. m s = Some (r, s') \<and> P r s'"
  by (auto simp: wpP_def split: option.splits)

lemma wpP_bindP:
  "wpP (bindP m f) Q d s
     = wpP m (\<lambda>r s'. case r of Inl ex \<Rightarrow> Q (Inl ex) s' | Inr x \<Rightarrow> wpP (f x) Q d s') d s"
  by (simp add: wpP_def bindP_def split: option.split prod.split sum.split)

lemma wpP_liftP: "wpP (liftP m) Q d s = wp m Q s"
  by (simp add: wpP_def liftP_def wp_def)

lemma case_sum_const [simp]: "(case r of Inl a \<Rightarrow> c | Inr b \<Rightarrow> c) = c"
  by (cases r) simp_all

lemma wpP_True [simp]: "wpP m (\<lambda>r s'. True) True s"
  by (simp add: wpP_def split: option.split)

lemma wpP_uploadFile_0: "wpP (uploadFile e 0 file) Q d s = d"
  by (simp add: wpP_def uploadFile.simps)

lemma wpP_uploadFile_Suc:
  "wpP (uploadFile e (Suc k) file) Q d s
     = wpP (uploadFile_try e (uploadFile e k) file)
         (\<lambda>r s'. case r of
                    Inl ex \<Rightarrow> Q (Inr False) (emit (Console (ErrorUploading file ex)) s')
                  | Inr b \<Rightarrow> Q (Inr b) s') d s"
  by (simp add: wpP_def uploadFile.simps split: option.split prod.split sum.split)

lemma wp_recordUpload:
  "wp (recordUpload e p result) Q s
     = Q (if writeFails e (now s) then Inl (Error ''write failed'') else Inr ())
         (tick e (assignRecord p
            (mergeMetadata p Null (uploadedMetadata result (stat_size s p) (now s) (deviceId s))) s))"
  by (simp add: recordUpload_def wp_bindE wp_getState wp_saveMetadata)

lemma mergeMetadata_uploaded [simp]:
  "m_revision (mergeMetadata p cur (uploadedMetadata result sz t dev)) = uploadedRevision result"
  "m_parentRevision (mergeMetadata p cur (uploadedMetadata result sz t dev)) = uploadedRevision result"
  "m_lastSyncedAt (mergeMetadata p cur (uploadedMetadata result sz t dev)) = t"
  by (simp_all add: mergeMetadata_def uploadedMetadata_def)

lemmas wp_upload = wpP_uploadFile_Suc wpP_bindP wpP_liftP wp_bindE wp_returnE wp_say wp_request
  wp_getState wp_vault_read wp_recordUpload

lemma uploadFile_success:
  assumes "map_of (vault s) file = Some (FileEntry content t)"
    and "fst (nc_uploadFile (net e) file content (storedRevision s file) (deviceId s) (server s))
           = Inr result"
    and "u_success result"
  shows "wpP (uploadFile e (Suc k) file)
     (\<lambda>r s'. \<exists>m. metadata s' file = Some m
         \<and> m_revision m = uploadedRevision result
         \<and> m_parentRevision m = uploadedRevision result
         \<and> m_lastSyncedAt m = now (tick e (tick e s))
         \<and> r = Inr (\<not> writeFails e (now (tick e (tick e s))))) False s"
  using assms
  by (simp add: uploadFile_try_def net_uploadFile_def wp_upload storedRevision_def)

lemma uploadFile_True:
  "wpP (uploadFile e k file)
     (\<lambda>r s'. r = Inr True \<longrightarrow>
        (\<exists>content t result m. map_of (vault s) file = Some (FileEntry content t)
           \<and> fst (nc_uploadFile (net e) file content (storedRevision s file) (deviceId s) (server s))
               = Inr result
           \<and> u_success result \<and> metadata s' file = Some m
           \<and> m_revision m = uploadedRevision result)) True s"
proof (cases k)
  case 0
  then show ?thesis by (simp add: wpP_uploadFile_0)
next
  case (Suc j)
  then show ?thesis
    by (auto simp: uploadFile_try_def net_uploadFile_def wp_upload storedRevision_def
        split: option.split entry.split sum.split)
qed

text \<open>
  C4: when the file can be read and the upload request returns a successful result, the
  upload returns, and afterwards the store's record for the path has the revision
  assigned by the server (\<^verbatim>\<open>result.file?.revision || 0\<close>) both as revision and as parent
  revision, and as \<open>lastSyncedAt\<close> the clock at which the request completed.  The value
  returned is \<^verbatim>\<open>true\<close> unless the adapter's write of the store fails.
\<close>

theorem C4_upload_record:
  assumes "map_of (vault s) file = Some (FileEntry content t)"
    and "fst (nc_uploadFile (net e) file content (storedRevision s file) (deviceId s) (server s))
           = Inr result"
    and "u_success result"
  shows "\<exists>r s' m. uploadFile e (Suc k) file s = Some (r, s')
     \<and> metadata s' file = Some m
     \<and> m_revision m = uploadedRevision result
     \<and> m_parentRevision m = uploadedRevision result
     \<and> m_lastSyncedAt m
         = now (snd (net_uploadFile e file content (storedRevision s file) (deviceId s)
                       (snd (vault_read e file s))))
     \<and> r = Inr (\<not> writeFails e (m_lastSyncedAt m))"
proof -
  have t: "now (snd (net_uploadFile e file content (storedRevision s file) (deviceId s)
                       (snd (vault_read e file s)))) = now (tick e (tick e s))"
    using assms(1) by (simp add: net_uploadFile_def request_eq vault_read_def)
  show ?thesis
    using wpP_total [OF uploadFile_success [OF assms, of k]] unfolding t by auto
qed

theorem C4_upload_record_witness:
  "\<exists>r s' m. uploadFile
        (testEnv (fixedNet (okList []) (okUpload ''a.md'' 7) (okDownload ''a.md'' 5 None ''x'')
           (okDelete False) noMerge))
        (Suc 0) ''a.md'' (testState ''tok'' False Map.empty [(''a.md'', FileEntry ''mine'' 90)])
          = Some (r, s')
     \<and> metadata s' ''a.md'' = Some m
     \<and> m_revision m = 7 \<and> m_parentRevision m = 7 \<and> m_lastSyncedAt m = 102 \<and> r = Inr True"
proof -
  let ?e = "testEnv (fixedNet (okList []) (okUpload ''a.md'' 7) (okDownload ''a.md'' 5 None ''x'')
              (okDelete False) noMerge)"
  let ?s = "testState ''tok'' False Map.empty [(''a.md'', FileEntry ''mine'' 90)]"
  have a: "map_of (vault ?s) ''a.md'' = Some (FileEntry ''mine'' 90)"
    by (simp add: testState_def)
  have b: "fst (nc_uploadFile (net ?e) ''a.md'' ''mine'' (storedRevision ?s ''a.md'')
                  (deviceId ?s) (server ?s)) = Inr (okUpload ''a.md'' 7)"
    by (simp add: testEnv_def fixedNet_def)
  have c: "u_success (okUpload ''a.md'' 7)"
    by (simp add: okUpload_def)
  have t: "now (snd (net_uploadFile ?e ''a.md'' ''mine'' (storedRevision ?s ''a.md'')
                       (deviceId ?s) (snd (vault_read ?e ''a.md'' ?s)))) = 102"
    by (simp add: net_uploadFile_def request_eq vault_read_def testState_def testEnv_def)
  have w: "\<not> writeFails ?e 102"
    by (simp add: testEnv_def)
  have r: "uploadedRevision (okUpload ''a.md'' 7) = 7"
    by (simp add: uploadedRevision_def okUpload_def orZero_def)
  show ?thesis
    using C4_upload_record [OF a b c, of 0] unfolding t r using w by auto
qed

lemma handleConflict_no_throw: "handleConflict e cb p result s \<noteq> Some (Inl ex, s')"
  by (simp add: handleConflict_def say_def split: option.split prod.split sum.split)

text \<open>
  C5: let the file be readable and the upload request return an unsuccessful result.
  If the result is flagged as a revision conflict (its error is \<^verbatim>\<open>'Conflict detected'\<close>)
  and carries a conflict context, \<^verbatim>\<open>uploadFile\<close> runs \<^verbatim>\<open>handleConflict\<close> on that file and
  that result, in the state the request left, and returns \<^verbatim>\<open>false\<close> when the resolver
  returns.  For every other unsuccessful result it logs the failure for that path and
  returns \<^verbatim>\<open>false\<close>; the state is the one the request left plus that log entry, so the
  resolver has not run.
\<close>

theorem C5_conflict_routes_to_resolver:
  assumes "map_of (vault s) file = Some (FileEntry content t)"
    and "fst (nc_uploadFile (net e) file content (storedRevision s file) (deviceId s) (server s))
           = Inr result"
    and "\<not> u_success result"
    and "s2 = snd (net_uploadFile e file content (storedRevision s file) (deviceId s)
                    (snd (vault_read e file s)))"
  shows "(u_error result = Some ''Conflict detected'' \<and> u_conflict result \<noteq> None \<longrightarrow>
            uploadFile e (Suc k) file s
              = map_option (\<lambda>(r, s3). (Inr False, s3))
                  (handleConflict e (uploadFile e k) file result s2))
       \<and> (\<not> (u_error result = Some ''Conflict detected'' \<and> u_conflict result \<noteq> None) \<longrightarrow>
            uploadFile e (Suc k) file s
              = Some (Inr False, emit (Console (FailedToUpload file (u_error result))) s2))"
proof -
  have rd: "vault_read e file s = (Inr content, tick e s)"
    using assms(1) by (simp add: vault_read_def)
  have up: "net_uploadFile e file content (storedRevision s file) (deviceId s) (tick e s)
              = (Inr result, s2)"
    using assms(2) unfolding assms(4) rd
    by (simp add: net_uploadFile_def request_eq)
  have body: "uploadFile_try e cb file s
      = (if u_error result = Some ''Conflict detected'' \<and> u_conflict result \<noteq> None
         then bindP (handleConflict e cb file result) (\<lambda>_. liftP (returnE False)) s2
         else Some (Inr False, emit (Console (FailedToUpload file (u_error result))) s2))" for cb
    using rd up assms(3)
    by (auto simp: uploadFile_try_def bindP_def liftP_def getState_def storedRevision_def
        say_def returnE_def)
  show ?thesis
  proof (cases "handleConflict e (uploadFile e k) file result s2")
    case None
    then show ?thesis by (auto simp: uploadFile.simps body bindP_def)
  next
    case (Some a)
    obtain r s3 where a: "a = (r, s3)" by (cases a)
    obtain u where r: "r = Inr u"
      using handleConflict_no_throw [of e "uploadFile e k" "file" result s2 _ s3] Some a
      by (cases r) auto
    show ?thesis using Some a r by (auto simp: uploadFile.simps body bindP_def liftP_def returnE_def)
  qed
qed

theorem C5_conflict_routes_to_resolver_witness:
  "uploadFile
     (testEnv (fixedNet (okList []) failedUpload (okDownload ''a.md'' 5 None ''x'')
        (okDelete False) noMerge))
     (Suc 0) ''a.md'' (testState ''tok'' False Map.empty [(''a.md'', FileEntry ''mine'' 90)])
   = Some (Inr False,
       (testState ''tok'' False Map.empty [(''a.md'', FileEntry ''mine'' 90)])
         \<lparr> now := 102,
           events := [Net (Upload ''a.md'' ''mine'' 0 ''dev''),
                      Console (FailedToUpload ''a.md'' (Some ''Quota exceeded''))] \<rparr>)
   \<and> uploadFile
     (testEnv (fixedNet (okList []) (rejectedUpload 5 0) (okDownload ''a.md'' 5 None ''x'')
        (okDelete False) noMerge))
     (Suc 0) ''a.md'' (testState ''tok'' False Map.empty [(''a.md'', FileEntry ''mine'' 90)])
   = map_option (\<lambda>(r, s3). (Inr False, s3))
       (handleConflict
          (testEnv (fixedNet (okList []) (rejectedUpload 5 0) (okDownload ''a.md'' 5 None ''x'')
             (okDelete False) noMerge))
          (uploadFile
             (testEnv (fixedNet (okList []) (rejectedUpload 5 0) (okDownload ''a.md'' 5 None ''x'')
                (okDelete False) noMerge)) 0)
          ''a.md'' (rejectedUpload 5 0)
          ((testState ''tok'' False Map.empty [(''a.md'', FileEntry ''mine'' 90)])
             \<lparr> now := 102, events := [Net (Upload ''a.md'' ''mine'' 0 ''dev'')] \<rparr>))"
proof -
  let ?e = "testEnv (fixedNet (okList []) failedUpload (okDownload ''a.md'' 5 None ''x'')
              (okDelete False) noMerge)"
  let ?e' = "testEnv (fixedNet (okList []) (rejectedUpload 5 0) (okDownload ''a.md'' 5 None ''x'')
              (okDelete False) noMerge)"
  let ?s = "testState ''tok'' False Map.empty [(''a.md'', FileEntry ''mine'' 90)]"
  let ?s2 = "?s\<lparr> now := 102, events := [Net (Upload ''a.md'' ''mine'' 0 ''dev'')] \<rparr>"
  have a: "map_of (vault ?s) ''a.md'' = Some (FileEntry ''mine'' 90)"
    by (simp add: testState_def)
  have b: "fst (nc_uploadFile (net ?e) ''a.md'' ''mine'' (storedRevision ?s ''a.md'')
                  (deviceId ?s) (server ?s)) = Inr failedUpload"
    by (simp add: testEnv_def fixedNet_def)
  have c: "\<not> u_success failedUpload"
      "\<not> (u_error failedUpload = Some ''Conflict detected'' \<and> u_conflict failedUpload \<noteq> None)"
      "u_error failedUpload = Some ''Quota exceeded''"
    by (simp_all add: failedUpload_def)
  have d: "?s2 = snd (net_uploadFile ?e ''a.md'' ''mine'' (storedRevision ?s ''a.md'')
                       (deviceId ?s) (snd (vault_read ?e ''a.md'' ?s)))"
    by (simp add: net_uploadFile_def request_eq vault_read_def testState_def testEnv_def
        fixedNet_def storedRevision_def lookup_defs tick_def emit_def)
  have b': "fst (nc_uploadFile (net ?e') ''a.md'' ''mine'' (storedRevision ?s ''a.md'')
                  (deviceId ?s) (server ?s)) = Inr (rejectedUpload 5 0)"
    by (simp add: testEnv_def fixedNet_def)
  have c': "\<not> u_success (rejectedUpload 5 0)"
      "u_error (rejectedUpload 5 0) = Some ''Conflict detected''
         \<and> u_conflict (rejectedUpload 5 0) \<noteq> None"
    by (simp_all add: rejectedUpload_def)
  have d': "?s2 = snd (net_uploadFile ?e' ''a.md'' ''mine'' (storedRevision ?s ''a.md'')
                       (deviceId ?s) (snd (vault_read ?e' ''a.md'' ?s)))"
    by (simp add: net_uploadFile_def request_eq vault_read_def testState_def testEnv_def
        fixedNet_def storedRevision_def lookup_defs tick_def emit_def)
  have "uploadFile ?e (Suc 0) ''a.md'' ?s
          = Some (Inr False, emit (Console (FailedToUpload ''a.md'' (u_error failedUpload))) ?s2)"
    using C5_conflict_routes_to_resolver [OF a b c(1) d, of 0] c(2) by blast
  moreover have "uploadFile ?e' (Suc 0) ''a.md'' ?s
          = map_option (\<lambda>(r, s3). (Inr False, s3))
              (handleConflict ?e' (uploadFile ?e' 0) ''a.md'' (rejectedUpload 5 0) ?s2)"
    using C5_conflict_routes_to_resolver [OF a b' c'(1) d', of 0] c'(2) by blast
  ultimately show ?thesis
    using c(3) by (simp add: emit_def testState_def)
qed

section \<open>Stored revisions over a transfer\<close>

lemma downloadFile_stored_revision:
  assumes "\<forall>result rfile. fst (nc_downloadFile (net e) p rv (server s)) = Inr result
             \<and> d_file result = Some rfile \<longrightarrow> storedRevision s p \<le> orZero (rf_revision rfile)"
  shows "storedRevision s p \<le> storedRevision (snd (downloadFile e p rv s)) p"
  using wpI [OF downloadFile_try_revision [of e p rv s]] assms
  by (cases "metadata s p")
     (auto simp: downloadFile_metadata storedRevision_Record storedRevision_None)

lemma needsDownload_stored:
  "needsDownload (getMetadata s (rf_path remote)) remote \<Longrightarrow>
   storedRevision s (rf_path remote) \<le> orZero (rf_revision remote)"
  by (auto simp: needsDownload_def storedRevision_def revisionOf_def Let_def)

lemma uploadFile_stored_revision:
  assumes "\<forall>content result.
             fst (nc_uploadFile (net e) file content (storedRevision s file) (deviceId s) (server s))
               = Inr result
             \<longrightarrow> storedRevision s file \<le> uploadedRevision result"
    and "uploadFile e k file s = Some (Inr True, s')"
  shows "storedRevision s file \<le> storedRevision s' file"
  using wpP_I [OF uploadFile_True [of e k "file" s] assms(2)] assms(1)
  by (auto simp: storedRevision_Record)

text \<open>
  C8, as stated: after any successful download, also one by \<^verbatim>\<open>downloadFile\<close> with an
  explicit revision, the stored revision is not smaller than before.  It fails for
  \<^verbatim>\<open>downloadFile\<close> called with an older revision: only the loop of \<^verbatim>\<open>syncVault\<close> compares
  revisions.  Here the record is at revision 5, revision 2 is asked for and answered, the
  call returns \<^verbatim>\<open>true\<close> and the record is at revision 2.
\<close>

theorem C8_revision_regresses_counterexample:
  "storedRevision (testState ''tok'' False [''a.md'' \<mapsto> testMeta ''a.md'' 5 50]
       [(''a.md'', FileEntry ''new'' 40)]) ''a.md'' = 5
   \<and> fst (downloadFile
        (testEnv (fixedNet (okList []) (okUpload ''a.md'' 1) (okDownload ''a.md'' 2 None ''old'')
           (okDelete False) noMerge))
        ''a.md'' (Some 2)
        (testState ''tok'' False [''a.md'' \<mapsto> testMeta ''a.md'' 5 50]
           [(''a.md'', FileEntry ''new'' 40)])) = Inr True
   \<and> storedRevision (snd (downloadFile
        (testEnv (fixedNet (okList []) (okUpload ''a.md'' 1) (okDownload ''a.md'' 2 None ''old'')
           (okDelete False) noMerge))
        ''a.md'' (Some 2)
        (testState ''tok'' False [''a.md'' \<mapsto> testMeta ''a.md'' 5 50]
           [(''a.md'', FileEntry ''new'' 40)]))) ''a.md'' = 2"
  by (simp add: eval_defs)

text \<open>
  C8, amended: a download or an upload stores the revision carried by the server's
  answer, so the stored revision of the path does not decrease over a download whose
  answer (if it carries a file descriptor) has a revision not smaller than the stored one,
  nor over a successful upload whose answer has one.  This covers every download of the
  downward phase that is answered at the revision asked for, since the phase asks only
  for revisions not smaller than the stored one.
\<close>

theorem C8_revision_monotone:
  "((\<forall>result rfile. fst (nc_downloadFile (net e) p rv (server s)) = Inr result
        \<and> d_file result = Some rfile \<longrightarrow> storedRevision s p \<le> orZero (rf_revision rfile))
     \<longrightarrow> storedRevision s p \<le> storedRevision (snd (downloadFile e p rv s)) p)
   \<and> ((\<forall>content result.
          fst (nc_uploadFile (net e) file content (storedRevision s file) (deviceId s) (server s))
            = Inr result
          \<longrightarrow> storedRevision s file \<le> uploadedRevision result)
       \<longrightarrow> (\<forall>s'. uploadFile e k file s = Some (Inr True, s')
              \<longrightarrow> storedRevision s file \<le> storedRevision s' file))
   \<and> (needsDownload (getMetadata s (rf_path remote)) remote
       \<and> (\<forall>result rfile.
             fst (nc_downloadFile (net e) (rf_path remote) (Some (orZero (rf_revision remote)))
                    (server s)) = Inr result
             \<and> d_file result = Some rfile
             \<longrightarrow> orZero (rf_revision rfile) = orZero (rf_revision remote))
       \<longrightarrow> storedRevision s (rf_path remote)
            \<le> storedRevision (snd (downloadFile e (rf_path remote)
                   (Some (orZero (rf_revision remote))) s)) (rf_path remote))"
proof (intro conjI impI allI)
  assume "\<forall>result rfile. fst (nc_downloadFile (net e) p rv (server s)) = Inr result
        \<and> d_file result = Some rfile \<longrightarrow> storedRevision s p \<le> orZero (rf_revision rfile)"
  then show "storedRevision s p \<le> storedRevision (snd (downloadFile e p rv s)) p"
    by (rule downloadFile_stored_revision)
next
  fix s'
  assume "\<forall>content result.
          fst (nc_uploadFile (net e) file content (storedRevision s file) (deviceId s) (server s))
            = Inr result
          \<longrightarrow> storedRevision s file \<le> uploadedRevision result"
    and "uploadFile e k file s = Some (Inr True, s')"
  then show "storedRevision s file \<le> storedRevision s' file"
    by (rule uploadFile_stored_revision)
next
  assume a: "needsDownload (getMetadata s (rf_path remote)) remote
       \<and> (\<forall>result rfile.
             fst (nc_downloadFile (net e) (rf_path remote) (Some (orZero (rf_revision remote)))
                    (server s)) = Inr result
             \<and> d_file result = Some rfile
             \<longrightarrow> orZero (rf_revision rfile) = orZero (rf_revision remote))"
  then have "storedRevision s (rf_path remote) \<le> orZero (rf_revision remote)"
    by (simp add: needsDownload_stored)
  with a show "storedRevision s (rf_path remote)
            \<le> storedRevision (snd (downloadFile e (rf_path remote)
                   (Some (orZero (rf_revision remote))) s)) (rf_path remote)"
    by (intro downloadFile_stored_revision) auto
qed


theorem C8_revision_monotone_witness:
  "storedRevision
      (testState ''tok'' False [''a.md'' \<mapsto> testMeta ''a.md'' 5 50]
         [(''a.md'', FileEntry ''mine'' 90)]) ''a.md''
     \<le> storedRevision (snd (downloadFile
          (testEnv (fixedNet (okList []) (okUpload ''a.md'' 8) (okDownload ''a.md'' 7 None ''x'')
             (okDelete False) noMerge))
          ''a.md'' (Some 7)
          (testState ''tok'' False [''a.md'' \<mapsto> testMeta ''a.md'' 5 50]
             [(''a.md'', FileEntry ''mine'' 90)]))) ''a.md''
   \<and> (\<exists>s'. uploadFile
          (testEnv (fixedNet (okList []) (okUpload ''a.md'' 8) (okDownload ''a.md'' 7 None ''x'')
             (okDelete False) noMerge))
          (Suc 0) ''a.md''
          (testState ''tok'' False [''a.md'' \<mapsto> testMeta ''a.md'' 5 50]
             [(''a.md'', FileEntry ''mine'' 90)]) = Some (Inr True, s')
        \<and> storedRevision
             (testState ''tok'' False [''a.md'' \<mapsto> testMeta ''a.md'' 5 50]
                [(''a.md'', FileEntry ''mine'' 90)]) ''a.md''
           \<le> storedRevision s' ''a.md'')
   \<and> needsDownload
        (getMetadata (testState ''tok'' False [''a.md'' \<mapsto> testMeta ''a.md'' 5 50]
           [(''a.md'', FileEntry ''mine'' 90)]) ''a.md'') (remoteFile ''a.md'' 7)"
proof -
  let ?e = "testEnv (fixedNet (okList []) (okUpload ''a.md'' 8) (okDownload ''a.md'' 7 None ''x'')
              (okDelete False) noMerge)"
  let ?s = "testState ''tok'' False [''a.md'' \<mapsto> testMeta ''a.md'' 5 50]
              [(''a.md'', FileEntry ''mine'' 90)]"
  have st: "storedRevision ?s ''a.md'' = 5"
    by (simp add: storedRevision_def lookup_defs testState_def testMeta_def)
  have dl: "\<forall>result rfile. fst (nc_downloadFile (net ?e) ''a.md'' (Some 7) (server ?s)) = Inr result
        \<and> d_file result = Some rfile \<longrightarrow> storedRevision ?s ''a.md'' \<le> orZero (rf_revision rfile)"
    unfolding st by (auto simp: testEnv_def fixedNet_def okDownload_def orZero_def)
  have ul: "\<forall>content result.
          fst (nc_uploadFile (net ?e) ''a.md'' content (storedRevision ?s ''a.md'') (deviceId ?s)
                 (server ?s)) = Inr result
          \<longrightarrow> storedRevision ?s ''a.md'' \<le> uploadedRevision result"
    unfolding st
    by (auto simp: testEnv_def fixedNet_def okUpload_def uploadedRevision_def orZero_def)
  have a: "map_of (vault ?s) ''a.md'' = Some (FileEntry ''mine'' 90)"
    by (simp add: testState_def)
  have b: "fst (nc_uploadFile (net ?e) ''a.md'' ''mine'' (storedRevision ?s ''a.md'')
                  (deviceId ?s) (server ?s)) = Inr (okUpload ''a.md'' 8)"
    by (simp add: testEnv_def fixedNet_def)
  have c: "u_success (okUpload ''a.md'' 8)"
    by (simp add: okUpload_def)
  have w: "\<not> writeFails ?e t" for t
    by (simp add: testEnv_def)
  obtain s' where run: "uploadFile ?e (Suc 0) ''a.md'' ?s = Some (Inr True, s')"
    using wpP_total [OF uploadFile_success [OF a b c, of 0]] w by auto
  have nd: "needsDownload (getMetadata ?s ''a.md'') (remoteFile ''a.md'' 7)"
    by (simp add: needsDownload_def lookup_defs testState_def testMeta_def remoteFile_def
        orZero_def)
  show ?thesis
    using C8_revision_monotone [of ?e "''a.md''" "Some 7" ?s "''a.md''" "Suc 0"
        "remoteFile ''a.md'' 7"] dl ul run nd
    by blast
qed

section \<open>No exception leaves a single-file operation\<close>

lemma leP_refl: "leP m m"
  by (simp add: leP_def)

lemma leP_bindP:
  "leP m m' \<Longrightarrow> (\<And>x. leP (f x) (f' x)) \<Longrightarrow> leP (bindP m f) (bindP m' f')"
  unfolding leP_def bindP_def
  by (auto split: option.splits prod.splits sum.splits)

lemma leP_if:
  "(b \<Longrightarrow> leP m1 m1') \<Longrightarrow> (\<not> b \<Longrightarrow> leP m2 m2') \<Longrightarrow>
   leP (if b then m1 else m2) (if b then m1' else m2')"
  by simp

lemma leP_handleConflict_try:
  assumes "\<And>p. leP (cb p) (cb' p)"
  shows "leP (handleConflict_try e cb p c) (handleConflict_try e cb' p c)"
  unfolding handleConflict_try_def Let_def
  by (intro leP_bindP leP_if leP_refl assms)

lemma leP_handleConflict:
  assumes "\<And>p. leP (cb p) (cb' p)"
  shows "leP (handleConflict e cb p r) (handleConflict e cb' p r)"
  using leP_handleConflict_try [of cb cb' e p, OF assms]
  unfolding leP_def handleConflict_def
  by (auto split: option.splits prod.splits sum.splits)

lemma leP_uploadFile_try:
  assumes "\<And>p. leP (cb p) (cb' p)"
  shows "leP (uploadFile_try e cb p) (uploadFile_try e cb' p)"
  unfolding uploadFile_try_def
  by (intro leP_bindP leP_if leP_refl leP_handleConflict assms)

lemma leP_uploadFile: "leP (uploadFile e k p) (uploadFile e (Suc k) p)"
proof (induction k arbitrary: p)
  case 0
  then show ?case by (simp add: leP_def uploadFile.simps)
next
  case (Suc k)
  have "leP (uploadFile_try e (uploadFile e k) p) (uploadFile_try e (uploadFile e (Suc k)) p)"
    by (rule leP_uploadFile_try) (rule Suc.IH)
  then show ?case
    unfolding leP_def uploadFile.simps(2) [of e "Suc k"] uploadFile.simps(2) [of e k]
    by (auto split: option.splits prod.splits sum.splits)
qed

lemma uploadFile_no_throw: "uploadFile e k p s \<noteq> Some (Inl ex, s')"
  by (cases k) (auto simp: uploadFile.simps split: option.splits prod.splits sum.splits)

lemma deleteFile_returns: "\<exists>b. fst (deleteFile e p s) = Inr b"
  by (auto simp: deleteFile_def split: prod.split sum.split)

lemma uploadFile_fuel:
  "uploadFile e k p s = Some r \<Longrightarrow> k \<le> j \<Longrightarrow> uploadFile e j p s = Some r"
proof (induction j)
  case 0
  then show ?case by simp
next
  case (Suc j)
  show ?case
  proof (cases "k \<le> j")
    case True
    then have "uploadFile e j p s = Some r" using Suc by simp
    then show ?thesis using leP_uploadFile [of e j p] unfolding leP_def by blast
  next
    case False
    then have "k = Suc j" using Suc.prems by simp
    then show ?thesis using Suc.prems by simp
  qed
qed

lemma uploadFile_unreadable:
  "map_of (vault s) p = None \<Longrightarrow>
   uploadFile e (Suc k) p s
     = Some (Inr False, emit (Console (ErrorUploading p (Error ''File not found''))) s)"
  by (simp add: uploadFile.simps uploadFile_try_def bindP_def liftP_def vault_read_def)

lemma uploadFile_transport_throws:
  "map_of (vault s) p = Some (FileEntry c t) \<Longrightarrow>
   fst (nc_uploadFile (net e) p c (storedRevision s p) (deviceId s) (server s)) = Inl ex \<Longrightarrow>
   \<exists>s'. uploadFile e (Suc k) p s = Some (Inr False, s')"
  by (simp add: uploadFile.simps uploadFile_try_def bindP_def liftP_def vault_read_def
      getState_def net_uploadFile_def request_eq storedRevision_def)

text \<open>
  C10: \<^verbatim>\<open>downloadFile\<close> and \<^verbatim>\<open>deleteFile\<close> always return a boolean, and \<^verbatim>\<open>uploadFile\<close>
  never returns a thrown error, whatever the nesting bound.  Whenever the body of the
  \<^verbatim>\<open>try\<close> throws (a transport call, a file-tree call or the store's write), the operation
  logs the error and returns \<^verbatim>\<open>false\<close>.  An upload of a file that cannot be read, or whose
  request throws, returns \<^verbatim>\<open>false\<close>; and once an upload returns within a nesting bound, it
  returns the same within every larger one.
\<close>

theorem C10_no_exception_escapes:
  "(\<exists>b s'. downloadFile e p rv s = (Inr b, s'))
   \<and> (\<exists>b s'. deleteFile e p s = (Inr b, s'))
   \<and> (\<forall>ex s'. uploadFile e k file s \<noteq> Some (Inl ex, s'))
   \<and> (\<forall>ex s1. downloadFile_try e p rv s = (Inl ex, s1)
         \<longrightarrow> downloadFile e p rv s = (Inr False, emit (Console (ErrorDownloading p ex)) s1))
   \<and> (\<forall>ex s1. deleteFile_try e p s = (Inl ex, s1)
         \<longrightarrow> deleteFile e p s = (Inr False, emit (Console (ErrorDeleting p ex)) s1))
   \<and> (\<forall>ex s1. uploadFile_try e (uploadFile e k) file s = Some (Inl ex, s1)
         \<longrightarrow> uploadFile e (Suc k) file s
               = Some (Inr False, emit (Console (ErrorUploading file ex)) s1))
   \<and> (map_of (vault s) file = None
         \<longrightarrow> uploadFile e (Suc k) file s
               = Some (Inr False, emit (Console (ErrorUploading file (Error ''File not found''))) s))
   \<and> (\<forall>c t ex. map_of (vault s) file = Some (FileEntry c t)
           \<and> fst (nc_uploadFile (net e) file c (storedRevision s file) (deviceId s) (server s))
               = Inl ex
         \<longrightarrow> (\<exists>s'. uploadFile e (Suc k) file s = Some (Inr False, s')))
   \<and> (\<forall>r j. uploadFile e k file s = Some r \<and> k \<le> j \<longrightarrow> uploadFile e j file s = Some r)"
proof (intro conjI allI impI)
  show "\<exists>b s'. downloadFile e p rv s = (Inr b, s')"
    using downloadFile_returns [of e p rv s] by (cases "downloadFile e p rv s") auto
  show "\<exists>b s'. deleteFile e p s = (Inr b, s')"
    using deleteFile_returns [of e p s] by (cases "deleteFile e p s") auto
  show "uploadFile e k file s \<noteq> Some (Inl ex, s')" for ex s'
    by (rule uploadFile_no_throw)
  show "downloadFile e p rv s = (Inr False, emit (Console (ErrorDownloading p ex)) s1)"
    if "downloadFile_try e p rv s = (Inl ex, s1)" for ex s1
    using that by (simp add: downloadFile_def)
  show "deleteFile e p s = (Inr False, emit (Console (ErrorDeleting p ex)) s1)"
    if "deleteFile_try e p s = (Inl ex, s1)" for ex s1
    using that by (simp add: deleteFile_def)
  show "uploadFile e (Suc k) file s = Some (Inr False, emit (Console (ErrorUploading file ex)) s1)"
    if "uploadFile_try e (uploadFile e k) file s = Some (Inl ex, s1)" for ex s1
    using that by (simp add: uploadFile.simps)
  show "uploadFile e (Suc k) file s
          = Some (Inr False, emit (Console (ErrorUploading file (Error ''File not found''))) s)"
    if "map_of (vault s) file = None"
    using that by (rule uploadFile_unreadable)
  show "\<exists>s'. uploadFile e (Suc k) file s = Some (Inr False, s')"
    if "map_of (vault s) file = Some (FileEntry c t)
          \<and> fst (nc_uploadFile (net e) file c (storedRevision s file) (deviceId s) (server s))
               = Inl ex" for c t ex
    using that uploadFile_transport_throws [of s "file" c t e ex k] by simp
  show "uploadFile e j file s = Some r"
    if "uploadFile e k file s = Some r \<and> k \<le> j" for r j
    using that uploadFile_fuel [of e k "file" s r j] by simp
qed

theorem C10_no_exception_escapes_witness:
  "downloadFile (testEnv failingNet) ''a.md'' None
       (testState ''tok'' False Map.empty [(''a.md'', FileEntry ''mine'' 90)])
     = (Inr False,
        (testState ''tok'' False Map.empty [(''a.md'', FileEntry ''mine'' 90)])
          \<lparr> now := 101,
            events := [Net (Download ''a.md'' None),
                       Console (ErrorDownloading ''a.md'' (Error ''offline''))] \<rparr>)
   \<and> deleteFile (testEnv failingNet) ''a.md''
       (testState ''tok'' False Map.empty [(''a.md'', FileEntry ''mine'' 90)])
     = (Inr False,
        (testState ''tok'' False Map.empty [(''a.md'', FileEntry ''mine'' 90)])
          \<lparr> now := 101,
            events := [Net (Delete ''a.md'' 0 ''dev''),
                       Console (ErrorDeleting ''a.md'' (Error ''offline''))] \<rparr>)
   \<and> uploadFile (testEnv failingNet) (Suc 0) ''a.md''
       (testState ''tok'' False Map.empty [(''a.md'', FileEntry ''mine'' 90)])
     = Some (Inr False,
        (testState ''tok'' False Map.empty [(''a.md'', FileEntry ''mine'' 90)])
          \<lparr> now := 102,
            events := [Net (Upload ''a.md'' ''mine'' 0 ''dev''),
                       Console (ErrorUploading ''a.md'' (Error ''offline''))] \<rparr>)
   \<and> uploadFile (testEnv failingNet) (Suc 0) ''b.md''
       (testState ''tok'' False Map.empty [(''a.md'', FileEntry ''mine'' 90)])
     = Some (Inr False,
        (testState ''tok'' False Map.empty [(''a.md'', FileEntry ''mine'' 90)])
          \<lparr> events := [Console (ErrorUploading ''b.md'' (Error ''File not found''))] \<rparr>)"
proof -
  let ?e = "testEnv failingNet"
  let ?s = "testState ''tok'' False Map.empty [(''a.md'', FileEntry ''mine'' 90)]"
  have d: "downloadFile_try ?e ''a.md'' None ?s
             = (Inl (Error ''offline''), ?s\<lparr> now := 101, events := [Net (Download ''a.md'' None)] \<rparr>)"
    by (simp add: downloadFile_try_def net_downloadFile_def request_eq bindE_def
        testEnv_def failingNet_def testState_def tick_def emit_def)
  have x: "deleteFile_try ?e ''a.md'' ?s
             = (Inl (Error ''offline''), ?s\<lparr> now := 101, events := [Net (Delete ''a.md'' 0 ''dev'')] \<rparr>)"
    by (simp add: deleteFile_try_def net_deleteFile_def request_eq bindE_def getState_def
        lookup_defs testEnv_def failingNet_def testState_def tick_def emit_def)
  have u: "uploadFile_try ?e (uploadFile ?e 0) ''a.md'' ?s
             = Some (Inl (Error ''offline''),
                 ?s\<lparr> now := 102, events := [Net (Upload ''a.md'' ''mine'' 0 ''dev'')] \<rparr>)"
    by (simp add: uploadFile_try_def bindP_def liftP_def vault_read_def getState_def
        net_uploadFile_def request_eq lookup_defs testEnv_def failingNet_def testState_def
        tick_def emit_def)
  have n: "map_of (vault ?s) ''b.md'' = None"
    by (simp add: testState_def)
  note T = C10_no_exception_escapes [of ?e "''a.md''" None ?s 0 "''a.md''"]
  have "downloadFile ?e ''a.md'' None ?s
          = (Inr False, emit (Console (ErrorDownloading ''a.md'' (Error ''offline'')))
               (?s\<lparr> now := 101, events := [Net (Download ''a.md'' None)] \<rparr>))"
    using T [THEN conjunct2, THEN conjunct2, THEN conjunct2, THEN conjunct1, rule_format, OF d] .
  moreover have "deleteFile ?e ''a.md'' ?s
          = (Inr False, emit (Console (ErrorDeleting ''a.md'' (Error ''offline'')))
               (?s\<lparr> now := 101, events := [Net (Delete ''a.md'' 0 ''dev'')] \<rparr>))"
    using T [THEN conjunct2, THEN conjunct2, THEN conjunct2, THEN conjunct2, THEN conjunct1,
        rule_format, OF x] .
  moreover have "uploadFile ?e (Suc 0) ''a.md'' ?s
          = Some (Inr False, emit (Console (ErrorUploading ''a.md'' (Error ''offline'')))
               (?s\<lparr> now := 102, events := [Net (Upload ''a.md'' ''mine'' 0 ''dev'')] \<rparr>))"
    using T [THEN conjunct2, THEN conjunct2, THEN conjunct2, THEN conjunct2, THEN conjunct2,
        THEN conjunct1, rule_format, OF u] .
  moreover have "uploadFile ?e (Suc 0) ''b.md'' ?s
          = Some (Inr False, emit (Console (ErrorUploading ''b.md'' (Error ''File not found''))) ?s)"
    using C10_no_exception_escapes [of ?e "''a.md''" None ?s 0 "''b.md''", THEN conjunct2,
        THEN conjunct2, THEN conjunct2, THEN conjunct2, THEN conjunct2, THEN conjunct2,
        THEN conjunct1, rule_format, OF n] .
  ultimately show ?thesis
    by (simp add: emit_def testState_def)
qed

section \<open>The manual fallback of the resolver\<close>

lemma wp_catchE:
  "wp (catchE m h) Q s
     = wp m (\<lambda>r s'. case r of Inl ex \<Rightarrow> wp (h ex) Q s' | Inr x \<Rightarrow> Q (Inr x) s') s"
  by (simp add: wp_def catchE_def split: prod.split sum.split)

lemma handleManualConflict_effect:
  assumes "map_of (vault s) p = Some (FileEntry c0 t0)"
    and "map_of (vault s) (p @ ''.conflict-'' @ timestampOf e (now s) @ ''.md'') = None
         \<or> map_of (vault s) (''conflict-'' @ timestampOf e (now s) @ ''-'' @ file_name p) = None"
  shows "wp (handleManualConflict e p lc sc)
     (\<lambda>r s'. r = Inr () \<and> metadata s' = metadata s \<and> protoInstalled s' = protoInstalled s
        \<and> (\<exists>bp tb tf.
              vault s' = AList.update p (FileEntry (markedContent lc sc bp) tf)
                           (vault s @ [(bp, FileEntry sc tb)])
              \<and> map_of (vault s) bp = None
              \<and> events s' = events s @ [Notice (CannotAutoMerge p), Notice (ConflictBackupSaved bp)])) s"
  using assms
  by (auto simp: handleManualConflict_def Let_def wp_bindE wp_say wp_dateNow wp_catchE
      wp_vault_create wp_vault_modify wp_returnE isTFile_def map_add_def)


lemma bindP_liftP:
  "bindP (liftP m) f s
     = (case fst (m s) of Inl ex \<Rightarrow> Some (Inl ex, snd (m s)) | Inr x \<Rightarrow> f x (snd (m s)))"
  by (simp add: bindP_def liftP_def split: prod.split sum.split)

lemma bindE_eq:
  "bindE m f s
     = (case fst (m s) of Inl ex \<Rightarrow> (Inl ex, snd (m s)) | Inr x \<Rightarrow> f x (snd (m s)))"
  by (simp add: bindE_def split: prod.split sum.split)

lemma bindP_assoc: "bindP (bindP m f) g = bindP m (\<lambda>x. bindP (f x) g)"
  by (rule ext) (simp add: bindP_def split: option.split prod.split sum.split)

lemma net_downloadFile_fields [simp]:
  "fst (net_downloadFile e p rv s) = fst (nc_downloadFile (net e) p rv (server s))"
  "server (snd (net_downloadFile e p rv s)) = snd (nc_downloadFile (net e) p rv (server s))"
  "metadata (snd (net_downloadFile e p rv s)) = metadata s"
  "protoInstalled (snd (net_downloadFile e p rv s)) = protoInstalled s"
  "vault (snd (net_downloadFile e p rv s)) = vault s"
  "events (snd (net_downloadFile e p rv s)) = events s @ [Net (Download p rv)]"
  by (simp_all add: net_downloadFile_def request_eq)

lemma net_attemptAutoMerge_fields [simp]:
  "fst (net_attemptAutoMerge e rq s) = fst (nc_attemptAutoMerge (net e) rq (server s))"
  "metadata (snd (net_attemptAutoMerge e rq s)) = metadata s"
  "protoInstalled (snd (net_attemptAutoMerge e rq s)) = protoInstalled s"
  "vault (snd (net_attemptAutoMerge e rq s)) = vault s"
  "events (snd (net_attemptAutoMerge e rq s)) = events s @ [Net (AutoMerge rq)]"
  by (simp_all add: net_attemptAutoMerge_def request_eq)

lemma vault_read_fields [simp]:
  "map_of (vault s) p = Some (FileEntry c t) \<Longrightarrow> fst (vault_read e p s) = Inr c"
  "server (snd (vault_read e p s)) = server s"
  "metadata (snd (vault_read e p s)) = metadata s"
  "protoInstalled (snd (vault_read e p s)) = protoInstalled s"
  "vault (snd (vault_read e p s)) = vault s"
  "events (snd (vault_read e p s)) = events s"
  by (simp_all add: vault_read_def split: option.split entry.split)

lemma handleConflict_try_manual:
  assumes "map_of (vault s) p = Some (FileEntry lc t0)"
    and "fst (nc_downloadFile (net e) p (Some (currentRevision c)) (server s)) = Inr r1"
    and "yourParentRevision c = 0
         \<or> (fst (nc_downloadFile (net e) p (Some (yourParentRevision c))
                   (snd (nc_downloadFile (net e) p (Some (currentRevision c)) (server s)))) = Inr r2
            \<and> fst (nc_attemptAutoMerge (net e)
                      \<lparr> filePath = p, ourContent = lc,
                        ancestorRevision = yourParentRevision c,
                        theirRevision = currentRevision c \<rparr>
                      (snd (nc_downloadFile (net e) p (Some (yourParentRevision c))
                         (snd (nc_downloadFile (net e) p (Some (currentRevision c)) (server s))))))
                 = Inr mr
            \<and> (\<not> g_success mr \<or> g_hasConflict mr \<or> orElse (g_mergedContent mr) [] = []))"
  shows "\<exists>sM. handleConflict_try e cb p c s
                 = Some (handleManualConflict e p lc (orElse (d_content r1) []) sM)
              \<and> metadata sM = metadata s \<and> protoInstalled sM = protoInstalled s
              \<and> vault sM = vault s \<and> (\<exists>evs. events sM = events s @ evs)"
proof (cases "yourParentRevision c = 0")
  case True
  define s1 where "s1 = snd (net_downloadFile e p (Some (currentRevision c)) s)"
  define s2 where "s2 = snd (vault_read e p s1)"
  have "handleConflict_try e cb p c s
          = Some (handleManualConflict e p lc (orElse (d_content r1) []) s2)"
    using assms(1,2) True
    by (simp add: handleConflict_try_def bindP_liftP returnE_def liftP_def s1_def s2_def)
  moreover have "metadata s2 = metadata s" "vault s2 = vault s"
      "protoInstalled s2 = protoInstalled s"
      "events s2 = events s @ [Net (Download p (Some (currentRevision c)))]"
    by (simp_all add: s1_def s2_def)
  ultimately show ?thesis by blast
next
  case False
  define rq where "rq = \<lparr> filePath = p, ourContent = lc,
                        ancestorRevision = yourParentRevision c,
                        theirRevision = currentRevision c \<rparr>"
  define s1 where "s1 = snd (net_downloadFile e p (Some (currentRevision c)) s)"
  define s2 where "s2 = snd (net_downloadFile e p (Some (yourParentRevision c)) s1)"
  define s3 where "s3 = snd (vault_read e p s2)"
  define s4 where "s4 = snd (net_attemptAutoMerge e rq s3)"
  have anc: "fst (nc_downloadFile (net e) p (Some (yourParentRevision c)) (server s1)) = Inr r2"
    and mg: "fst (nc_attemptAutoMerge (net e) rq (server s3)) = Inr mr"
    and bad: "\<not> (g_success mr \<and> \<not> g_hasConflict mr \<and> orElse (g_mergedContent mr) [] \<noteq> [])"
    using assms(3) False by (auto simp: s1_def s2_def s3_def rq_def)
  have rd: "fst (vault_read e p s2) = Inr lc"
    using assms(1) by (simp add: s1_def s2_def)
  have "handleConflict_try e cb p c s
          = Some (handleManualConflict e p lc (orElse (d_content r1) []) s4)"
    using assms(2) False anc mg bad rd
    by (auto simp: handleConflict_try_def bindP_assoc bindP_liftP bindE_eq returnE_def liftP_def
        s1_def [symmetric] s2_def [symmetric] s3_def [symmetric] s4_def [symmetric]
        rq_def [symmetric])
  moreover have "metadata s4 = metadata s" "vault s4 = vault s"
      "protoInstalled s4 = protoInstalled s" "\<exists>evs. events s4 = events s @ evs"
    by (simp_all add: s1_def s2_def s3_def s4_def)
  ultimately show ?thesis by blast
qed


lemma markedContent_eq:
  "markedContent lc sc bp
     = ''<<<<<<< LOCAL (Your Version)'' @ [CHR 0x0A]
       @ lc @ [CHR 0x0A]
       @ ''======='' @ [CHR 0x0A]
       @ sc @ [CHR 0x0A]
       @ ''>>>>>>> SERVER (Remote Version)'' @ [CHR 0x0A, CHR 0x0A]
       @ ''<!-- Conflict detected. Please resolve manually and re-sync. -->'' @ [CHR 0x0A]
       @ ''<!-- A backup of the server version has been saved to: '' @ bp @ '' -->''"
  by (simp add: markedContent_def trim_def isSpace_def)

lemmas conflict_defs = handleConflict_def handleConflict_try_def handleManualConflict_def
  bindP_def liftP_def bindE_def returnE_def catchE_def say_def dateNow_def
  net_downloadFile_def request_eq vault_read_def vault_create_def vault_modify_def isTFile_def
  timestampOf_def orElse_def rejectedUpload_def noDownload_def testEnv_def fixedNet_def
  failingNet_def testState_def tick_def emit_def Let_def

text \<open>
  C6, as stated: on every conflict whose merge attempt fails, the resolver creates one
  backup holding the server's content and overwrites the local file with the marked
  document.  It fails in two ways, shown here on a conflict without ancestor (the claimed
  parent revision is 0) for \<^verbatim>\<open>a.md\<close>, whose local content is \<^verbatim>\<open>mine\<close>.  When the download of
  the server's version is answered without a content, the source takes
  \<^verbatim>\<open>serverResponse.content || ''\<close> without looking at \<^verbatim>\<open>success\<close>: the backup is created
  empty, and the local file is overwritten with a document whose server part is empty.
  When the download throws, the \<^verbatim>\<open>catch\<close> of \<^verbatim>\<open>handleConflict\<close> takes over: the handler
  returns, no backup exists and the local file is as it was.
\<close>

theorem C6_backup_without_server_content_counterexample:
  "map_option (\<lambda>(r, s'). vault s')
     (handleConflict
        (testEnv (fixedNet (okList []) (rejectedUpload 5 0) noDownload (okDelete False) noMerge))
        (uploadFile
           (testEnv (fixedNet (okList []) (rejectedUpload 5 0) noDownload (okDelete False)
              noMerge)) 0)
        ''a.md'' (rejectedUpload 5 0)
        (testState ''tok'' False [''a.md'' \<mapsto> testMeta ''a.md'' 3 50]
           [(''a.md'', FileEntry ''mine'' 90)]))
     = Some [(''a.md'',
              FileEntry (markedContent ''mine'' [] ''a.md.conflict-2026-01-01T00-00-00-000Z.md'')
                104),
             (''a.md.conflict-2026-01-01T00-00-00-000Z.md'', FileEntry [] 103)]
   \<and> map_option (\<lambda>(r, s'). (r, vault s'))
       (handleConflict (testEnv failingNet) (uploadFile (testEnv failingNet) 0)
          ''a.md'' (rejectedUpload 5 0)
          (testState ''tok'' False [''a.md'' \<mapsto> testMeta ''a.md'' 3 50]
             [(''a.md'', FileEntry ''mine'' 90)]))
     = Some (Inr (), [(''a.md'', FileEntry ''mine'' 90)])"
  by (simp add: conflict_defs)

text \<open>
  C6, amended.  Take a conflict for a file that exists locally, such that the download of
  the server's current version returns an answer, and on which the merge attempt fails:
  no ancestor exists (the claimed parent revision is 0), or the download of the ancestor
  and the merge request both return and the merge service answers with a failure, a
  residual conflict or an empty merged content.  If the backup name or the fallback name
  is free, the resolver returns without error, and afterwards the file tree is the old
  one with exactly one new file, the backup, holding the content of the download's answer
  (empty if the answer carries none), and with the local file overwritten by the marked
  document: the local content and that same content between the conflict delimiters, and
  the comment naming the backup path.  The store is unchanged, so the record's revision
  and parent revision are.
\<close>

theorem C6_manual_fallback:
  assumes "u_conflict result = Some c"
    and "map_of (vault s) file = Some (FileEntry localContent t0)"
    and "fst (nc_downloadFile (net e) file (Some (currentRevision c)) (server s))
           = Inr serverResponse"
    and "yourParentRevision c = 0
         \<or> (fst (nc_downloadFile (net e) file (Some (yourParentRevision c))
                   (snd (nc_downloadFile (net e) file (Some (currentRevision c)) (server s))))
               = Inr ancestorResponse
            \<and> fst (nc_attemptAutoMerge (net e)
                      \<lparr> filePath = file, ourContent = localContent,
                        ancestorRevision = yourParentRevision c,
                        theirRevision = currentRevision c \<rparr>
                      (snd (nc_downloadFile (net e) file (Some (yourParentRevision c))
                         (snd (nc_downloadFile (net e) file (Some (currentRevision c))
                                 (server s))))))
                 = Inr mergeResult
            \<and> (\<not> g_success mergeResult \<or> g_hasConflict mergeResult
                 \<or> orElse (g_mergedContent mergeResult) [] = []))"
    and "\<forall>t. map_of (vault s) (file @ ''.conflict-'' @ timestampOf e t @ ''.md'') = None
             \<or> map_of (vault s) (''conflict-'' @ timestampOf e t @ ''-'' @ file_name file) = None"
  shows "\<exists>s' backupPath tb tf.
           handleConflict e onMergeSuccess file result s = Some (Inr (), s')
         \<and> metadata s' = metadata s \<and> protoInstalled s' = protoInstalled s
         \<and> map_of (vault s) backupPath = None
         \<and> vault s'
             = AList.update file
                 (FileEntry (markedContent localContent (orElse (d_content serverResponse) [])
                    backupPath) tf)
                 (vault s @ [(backupPath, FileEntry (orElse (d_content serverResponse) []) tb)])
         \<and> markedContent localContent (orElse (d_content serverResponse) []) backupPath
             = ''<<<<<<< LOCAL (Your Version)'' @ [CHR 0x0A]
               @ localContent @ [CHR 0x0A]
               @ ''======='' @ [CHR 0x0A]
               @ orElse (d_content serverResponse) [] @ [CHR 0x0A]
               @ ''>>>>>>> SERVER (Remote Version)'' @ [CHR 0x0A, CHR 0x0A]
               @ ''<!-- Conflict detected. Please resolve manually and re-sync. -->''
               @ [CHR 0x0A]
               @ ''<!-- A backup of the server version has been saved to: '' @ backupPath
               @ '' -->''
         \<and> Notice (ConflictBackupSaved backupPath) \<in> set (events s')"
proof -
  let ?s0 = "emit (Notice (ConflictDetected file)) s"
  let ?sc = "orElse (d_content serverResponse) []"
  obtain sM where sM: "handleConflict_try e onMergeSuccess file c ?s0
        = Some (handleManualConflict e file localContent ?sc sM)"
      "metadata sM = metadata s" "vault sM = vault s" "protoInstalled sM = protoInstalled s"
    using handleConflict_try_manual [of ?s0 "file" localContent t0 e c serverResponse
        ancestorResponse mergeResult onMergeSuccess] assms(2,3,4)
    by auto
  have free: "map_of (vault sM) (file @ ''.conflict-'' @ timestampOf e (now sM) @ ''.md'') = None
      \<or> map_of (vault sM) (''conflict-'' @ timestampOf e (now sM) @ ''-'' @ file_name file) = None"
    using assms(5) sM(3) by simp
  have ex: "map_of (vault sM) file = Some (FileEntry localContent t0)"
    using assms(2) sM(3) by simp
  define r where "r = handleManualConflict e file localContent ?sc sM"
  have eff: "fst r = Inr () \<and> metadata (snd r) = metadata sM
        \<and> protoInstalled (snd r) = protoInstalled sM
        \<and> (\<exists>bp tb tf.
              vault (snd r) = AList.update file (FileEntry (markedContent localContent ?sc bp) tf)
                           (vault sM @ [(bp, FileEntry ?sc tb)])
              \<and> map_of (vault sM) bp = None
              \<and> events (snd r) = events sM @ [Notice (CannotAutoMerge file), Notice (ConflictBackupSaved bp)])"
    unfolding r_def by (rule wpI [OF handleManualConflict_effect [OF ex free]])
  then obtain bp tb tf where bp:
      "vault (snd r) = AList.update file (FileEntry (markedContent localContent ?sc bp) tf)
                           (vault s @ [(bp, FileEntry ?sc tb)])"
      "map_of (vault s) bp = None"
      "events (snd r) = events sM @ [Notice (CannotAutoMerge file), Notice (ConflictBackupSaved bp)]"
    using sM(3) by auto
  have run: "handleConflict e onMergeSuccess file result s = Some (Inr (), snd r)"
    using assms(1) sM(1) eff
    by (cases r) (simp add: handleConflict_def r_def [symmetric])
  show ?thesis
    using run eff sM(2,4) bp markedContent_eq [of localContent ?sc bp]
    by (intro exI [of _ "snd r"] exI [of _ bp] exI [of _ tb] exI [of _ tf]) simp
qed

theorem C6_manual_fallback_witness:
  "\<exists>s' backupPath tb tf.
     handleConflict
       (testEnv (fixedNet (okList []) (rejectedUpload 5 3) (okDownload ''a.md'' 5 None ''theirs'')
          (okDelete False) noMerge))
       (uploadFile
          (testEnv (fixedNet (okList []) (rejectedUpload 5 3)
             (okDownload ''a.md'' 5 None ''theirs'') (okDelete False) noMerge)) 0)
       ''a.md'' (rejectedUpload 5 3)
       (testState ''tok'' False [''a.md'' \<mapsto> testMeta ''a.md'' 3 50]
          [(''a.md'', FileEntry ''mine'' 90)])
       = Some (Inr (), s')
     \<and> metadata s' ''a.md'' = Some (testMeta ''a.md'' 3 50)
     \<and> vault s'
         = [(''a.md'', FileEntry (markedContent ''mine'' ''theirs'' backupPath) tf),
            (backupPath, FileEntry ''theirs'' tb)]"
proof -
  let ?e = "testEnv (fixedNet (okList []) (rejectedUpload 5 3)
              (okDownload ''a.md'' 5 None ''theirs'') (okDelete False) noMerge)"
  let ?s = "testState ''tok'' False [''a.md'' \<mapsto> testMeta ''a.md'' 3 50]
              [(''a.md'', FileEntry ''mine'' 90)]"
  let ?c = "\<lparr> currentRevision = 5, yourParentRevision = 3 \<rparr>"
  have a: "u_conflict (rejectedUpload 5 3) = Some ?c"
    by (simp add: rejectedUpload_def)
  have b: "map_of (vault ?s) ''a.md'' = Some (FileEntry ''mine'' 90)"
    by (simp add: testState_def)
  have c: "fst (nc_downloadFile (net ?e) ''a.md'' (Some (currentRevision ?c)) (server ?s))
             = Inr (okDownload ''a.md'' 5 None ''theirs'')"
    by (simp add: testEnv_def fixedNet_def)
  have d: "yourParentRevision ?c = 0
         \<or> (fst (nc_downloadFile (net ?e) ''a.md'' (Some (yourParentRevision ?c))
                   (snd (nc_downloadFile (net ?e) ''a.md'' (Some (currentRevision ?c)) (server ?s))))
               = Inr (okDownload ''a.md'' 5 None ''theirs'')
            \<and> fst (nc_attemptAutoMerge (net ?e)
                      \<lparr> filePath = ''a.md'', ourContent = ''mine'',
                        ancestorRevision = yourParentRevision ?c,
                        theirRevision = currentRevision ?c \<rparr>
                      (snd (nc_downloadFile (net ?e) ''a.md'' (Some (yourParentRevision ?c))
                         (snd (nc_downloadFile (net ?e) ''a.md'' (Some (currentRevision ?c))
                                 (server ?s))))))
                 = Inr noMerge
            \<and> (\<not> g_success noMerge \<or> g_hasConflict noMerge
                 \<or> orElse (g_mergedContent noMerge) [] = []))"
    by (simp add: testEnv_def fixedNet_def noMerge_def)
  have f: "\<forall>t. map_of (vault ?s) (''a.md'' @ ''.conflict-'' @ timestampOf ?e t @ ''.md'') = None
             \<or> map_of (vault ?s) (''conflict-'' @ timestampOf ?e t @ ''-'' @ file_name ''a.md'') = None"
    by (simp add: testState_def)
  have sc: "orElse (d_content (okDownload ''a.md'' 5 None ''theirs'')) [] = ''theirs''"
    by (simp add: okDownload_def orElse_def)
  have md: "metadata ?s ''a.md'' = Some (testMeta ''a.md'' 3 50)"
      "vault ?s = [(''a.md'', FileEntry ''mine'' 90)]"
    by (simp_all add: testState_def)
  obtain s' bp tb tf where r:
      "handleConflict ?e (uploadFile ?e 0) ''a.md'' (rejectedUpload 5 3) ?s = Some (Inr (), s')"
      "metadata s' = metadata ?s"
      "map_of (vault ?s) bp = None"
      "vault s' = AList.update ''a.md'' (FileEntry (markedContent ''mine'' ''theirs'' bp) tf)
                    (vault ?s @ [(bp, FileEntry ''theirs'' tb)])"
    using C6_manual_fallback [OF a b c d f, of "uploadFile ?e 0"] unfolding sc by blast
  have "vault s' = [(''a.md'', FileEntry (markedContent ''mine'' ''theirs'' bp) tf),
                    (bp, FileEntry ''theirs'' tb)]"
    using r(4) unfolding md(2) by simp
  then show ?thesis
    using r(1,2) md(1) by (intro exI [of _ s'] exI [of _ bp] exI [of _ tb] exI [of _ tf]) simp
qed

section \<open>A second pass\<close>

lemma requestsOf_simps [simp]:
  "requestsOf [] = []"
  "requestsOf (xs @ ys) = requestsOf xs @ requestsOf ys"
  "requestsOf (Net rq # evs) = rq # requestsOf evs"
  "requestsOf (Notice n # evs) = requestsOf evs"
  "requestsOf (Console c # evs) = requestsOf evs"
  by (simp_all add: requestsOf_def)














subsection \<open>Properties that an operation keeps\<close>












subsection \<open>What a download leaves alone\<close>

lemma stat_mtime_frame [simp]:
  "stat_mtime (tick e s) q = stat_mtime s q"
  "stat_mtime (emit ev s) q = stat_mtime s q"
  "stat_mtime (assignRecord p r s) q = stat_mtime s q"
  "stat_mtime (s\<lparr>server := n\<rparr>) q = stat_mtime s q"
  by (simp_all add: stat_mtime_def)











subsection \<open>The downward phase of a first pass\<close>






subsection \<open>The upward phase of a first pass\<close>








subsection \<open>A pass, from its two phases\<close>






subsection \<open>The example server\<close>









section \<open>Deletion\<close>

lemma deleteFile_try_metadata:
  assumes "fst (nc_deleteFile (net e) p (storedRevision s p) (deviceId s) (server s)) = Inr result"
    and "\<not> (p = ''__proto__'' \<and> protoInstalled s)"
  shows "wp (deleteFile_try e p) (\<lambda>r s'. metadata s' p = None) s"
  using assms getMetadata_Null [of _ p]
  by (auto simp: deleteFile_try_def net_deleteFile_def storedRevision_def wp_rules)

lemma deleteFile_metadata:
  "metadata (snd (deleteFile e p s)) = metadata (snd (deleteFile_try e p s))"
  by (simp add: deleteFile_def split: prod.split sum.split)

text \<open>
  C7, as stated: \<^verbatim>\<open>deleteFile\<close> on a path with a record always leaves no record.  It fails
  when the delete request throws: the \<^verbatim>\<open>catch\<close> returns \<^verbatim>\<open>false\<close> before
  \<^verbatim>\<open>deleteMetadata\<close> is reached.  It also fails on the path \<^verbatim>\<open>__proto__\<close> once a download
  has saved a record for it: the assignment made that record the prototype of the store
  object, \<^verbatim>\<open>delete\<close> removes nothing, and after a \<^verbatim>\<open>deleteFile\<close> that returns \<^verbatim>\<open>true\<close> the
  lookup still yields the record.
\<close>

theorem C7_delete_keeps_metadata_counterexample:
  "metadata (testState ''tok'' False [''a.md'' \<mapsto> testMeta ''a.md'' 3 50] []) ''a.md'' \<noteq> None
   \<and> fst (deleteFile (testEnv failingNet) ''a.md''
        (testState ''tok'' False [''a.md'' \<mapsto> testMeta ''a.md'' 3 50] [])) = Inr False
   \<and> metadata (snd (deleteFile (testEnv failingNet) ''a.md''
        (testState ''tok'' False [''a.md'' \<mapsto> testMeta ''a.md'' 3 50] []))) ''a.md''
      = Some (testMeta ''a.md'' 3 50)
   \<and> metadata (snd (downloadFile protoEnv ''__proto__'' (Some 3)
        (testState ''tok'' False Map.empty []))) ''__proto__'' \<noteq> None
   \<and> fst (deleteFile protoEnv ''__proto__''
        (snd (downloadFile protoEnv ''__proto__'' (Some 3)
           (testState ''tok'' False Map.empty [])))) = Inr True
   \<and> metadata (snd (deleteFile protoEnv ''__proto__''
        (snd (downloadFile protoEnv ''__proto__'' (Some 3)
           (testState ''tok'' False Map.empty []))))) ''__proto__'' \<noteq> None"
  by (simp add: eval_defs deleteFile_def deleteFile_try_def net_deleteFile_def deleteMetadata_def
      deleteOwn_def protoEnv_def failingNet_def)

text \<open>
  C7, amended: whenever the delete request returns a result, successful or not and
  with a conflict reported or not, the store has no record for the path afterwards (also
  when the adapter's write then fails).  The one path left out is \<^verbatim>\<open>__proto__\<close> when its
  record is the store object's prototype: \<^verbatim>\<open>delete\<close> removes own properties only.
\<close>

theorem C7_delete_clears_metadata:
  assumes "fst (nc_deleteFile (net e) p (storedRevision s p) (deviceId s) (server s)) = Inr result"
    and "\<not> (p = ''__proto__'' \<and> protoInstalled s)"
  shows "metadata (snd (deleteFile e p s)) p = None"
  using wpI [OF deleteFile_try_metadata [OF assms]] by (simp add: deleteFile_metadata)

theorem C7_delete_clears_metadata_witness:
  "metadata (testState ''tok'' False [''a.md'' \<mapsto> testMeta ''a.md'' 3 50] []) ''a.md'' \<noteq> None
   \<and> metadata (snd (deleteFile
        (testEnv (fixedNet (okList []) (okUpload ''a.md'' 1) (okDownload ''a.md'' 3 None ''x'')
           (okDelete True) noMerge)) ''a.md''
        (testState ''tok'' False [''a.md'' \<mapsto> testMeta ''a.md'' 3 50] []))) ''a.md'' = None"
  using C7_delete_clears_metadata [of
      "testEnv (fixedNet (okList []) (okUpload ''a.md'' 1) (okDownload ''a.md'' 3 None ''x'')
           (okDelete True) noMerge)" "''a.md''"
      "testState ''tok'' False [''a.md'' \<mapsto> testMeta ''a.md'' 3 50] []" "okDelete True"]
  by (simp add: testState_def testEnv_def fixedNet_def)

section \<open>The in-flight guard\<close>

text \<open>
  C9, as stated: whenever the in-flight flag is set, \<^verbatim>\<open>syncVault\<close> answers with the busy
  notice.  It fails when no token is configured: the authentication guard comes first,
  and its notice is the one shown.
\<close>

theorem C9_busy_signal_counterexample:
  "isSyncing (testState [] True Map.empty [])
   \<and> syncVault (testEnv failingNet) 1 False (testState [] True Map.empty [])
       = Some (None, (testState [] True Map.empty [])\<lparr>events := [Notice NotAuthenticated]\<rparr>)
   \<and> Notice SyncInProgress
       \<notin> set (events ((testState [] True Map.empty [])\<lparr>events := [Notice NotAuthenticated]\<rparr>))"
  by (simp add: syncVault_def testState_def emit_def)

text \<open>
  C9, amended: if a pass is in flight, \<^verbatim>\<open>syncVault\<close> returns at once, without a summary;
  the state is the one it was called in (same store, same file tree, same server state,
  same clock, flag still set) but for one notice, and no request is sent.  The notice is
  the busy one when a token is configured, and the not-authenticated one otherwise.
\<close>

theorem C9_busy_no_work:
  "isSyncing s \<Longrightarrow>
   syncVault e fuel silent s
     = Some (None, emit (Notice (if token s = [] then NotAuthenticated else SyncInProgress)) s)"
  by (simp add: syncVault_def)

theorem C9_busy_no_work_witness:
  "isSyncing (testState ''tok'' True Map.empty [])
   \<and> syncVault (testEnv failingNet) 1 False (testState ''tok'' True Map.empty [])
       = Some (None, (testState ''tok'' True Map.empty [])\<lparr>events := [Notice SyncInProgress]\<rparr>)"
  using C9_busy_no_work [of "testState ''tok'' True Map.empty []" "testEnv failingNet" 1 False]
  by (simp add: testState_def emit_def)


end
